theory Spec2Isabelle
  imports Main "HOL-Library.Word"
begin

unbundle bit_operations_syntax

section \<open>Common definitions\<close>

text \<open>
  The constants of \<^verbatim>\<open>pds.c\<close>: \<^verbatim>\<open>#define BITS 5\<close>, \<^verbatim>\<open>#define WIDTH (1 << BITS)\<close>,
  \<^verbatim>\<open>#define MASK (WIDTH - 1)\<close>.
\<close>

definition BITS :: nat where
  "BITS = 5"

definition WIDTH :: nat where
  "WIDTH = 2 ^ BITS"

definition MASK :: int where
  "MASK = int WIDTH - 1"

text \<open>
  The exceptions the C functions set before returning \<^verbatim>\<open>NULL\<close>. \<open>MemoryFault\<close> stands for
  undefined behaviour of the C program: a \<^verbatim>\<open>NULL\<close> dereference, a cast of an object to a
  node type it does not have, an unchecked read past the end of a tuple or list, or an
  unbounded recursion.
\<close>

datatype error = IndexError | KeyError | TypeError | ValueError | OverflowError
  | RuntimeError | MemoryFault

text \<open>
  A \<^verbatim>\<open>PyObject *\<close> of the host: either the singleton \<^verbatim>\<open>Py_None\<close> or some other object.
  Equality of host objects (\<^verbatim>\<open>PyObject_RichCompareBool(a, b, Py_EQ)\<close>) and pointer identity
  of elements are both read as HOL equality.
\<close>

datatype 'a PyObject = Py_None | Obj 'a

text \<open>
  What a function returning an object pointer hands back, by the statement that
  returns it: the receiver itself (\<^verbatim>\<open>Py_INCREF(self); return self\<close>), the module-level empty
  singleton by its name (\<^verbatim>\<open>EMPTY_VECTOR\<close>, \<^verbatim>\<open>EMPTY_MAP\<close>, ...), or an object allocated by
  the call.  \<open>Self\<close> and \<open>Singleton\<close> are the same pointer when the receiver is the
  singleton.
\<close>

datatype 'a ref = Self | Singleton | Fresh 'a

definition deref :: "'a \<Rightarrow> 'a \<Rightarrow> 'a ref \<Rightarrow> 'a" where
  "deref canonical self r = (case r of Self \<Rightarrow> self | Singleton \<Rightarrow> canonical | Fresh x \<Rightarrow> x)"

text \<open>\<^verbatim>\<open>Py_ssize_t\<close> is a signed 64-bit integer; \<^verbatim>\<open>PyLong_AsSsize_t\<close> fails outside it.\<close>

definition PY_SSIZE_T_MAX :: int where
  "PY_SSIZE_T_MAX = 2 ^ 63 - 1"

definition PyLong_AsSsize_t :: "int \<Rightarrow> error + int" where
  "PyLong_AsSsize_t key =
     (if - PY_SSIZE_T_MAX - 1 \<le> key \<and> key \<le> PY_SSIZE_T_MAX then Inr key else Inl OverflowError)"

section \<open>Vector\<close>

subsection \<open>Trie nodes\<close>

text \<open>
  \<^verbatim>\<open>struct VectorNode { PyObject *array[WIDTH]; PyObject *transient_id; }\<close>. A slot of the
  array is \<^verbatim>\<open>NULL\<close>, an element (in a leaf) or a child node (in an internal node).
  Edit tokens are compared by identity only, so a token is a number.
\<close>

datatype 'a VectorNode = VectorNode (array: "'a slot list") (transient_id: "nat option")
and 'a slot = NULL | Item "'a PyObject" | Child "'a VectorNode"

definition VectorNode_create :: "nat option \<Rightarrow> 'a VectorNode" where
  "VectorNode_create tid = VectorNode (replicate WIDTH NULL) tid"

definition VectorNode_clone :: "'a VectorNode \<Rightarrow> nat option \<Rightarrow> 'a VectorNode" where
  "VectorNode_clone self tid = VectorNode (array self) tid"

definition VectorNode_is_editable :: "'a VectorNode \<Rightarrow> nat option \<Rightarrow> bool" where
  "VectorNode_is_editable self tid \<longleftrightarrow> tid \<noteq> None \<and> transient_id self = tid"

definition EMPTY_NODE :: "'a VectorNode" where
  "EMPTY_NODE = VectorNode_create None"

subsection \<open>The vector object\<close>

text \<open>
  \<^verbatim>\<open>struct Vector { Py_ssize_t cnt; int shift; VectorNode *root; PyObject *tail; ...;
  PyObject *transient_id; }\<close>. The tail is a tuple. The memoised hash is left out.
\<close>

record 'a Vector =
  cnt :: int
  shift :: nat
  root :: "'a VectorNode"
  tail :: "'a PyObject list"
  vec_transient_id :: "nat option"

definition Vector_create ::
  "int \<Rightarrow> nat \<Rightarrow> 'a VectorNode \<Rightarrow> 'a PyObject list \<Rightarrow> nat option \<Rightarrow> 'a Vector" where
  "Vector_create c s r t tid = \<lparr>cnt = c, shift = s, root = r, tail = t, vec_transient_id = tid\<rparr>"

text \<open>Module initialisation: \<^verbatim>\<open>EMPTY_VECTOR = Vector_create(0, BITS, EMPTY_NODE, NULL, NULL)\<close>.\<close>

definition EMPTY_VECTOR :: "'a Vector" where
  "EMPTY_VECTOR = Vector_create 0 BITS EMPTY_NODE [] None"

definition Vector_length :: "'a Vector \<Rightarrow> int" where
  "Vector_length self = cnt self"

definition Vector_tail_off :: "'a Vector \<Rightarrow> int" where
  "Vector_tail_off self =
     (if cnt self < int WIDTH then 0 else push_bit BITS (drop_bit BITS (cnt self - 1)))"

text \<open>
  The loop \<^verbatim>\<open>for (level = shift; level > 0; level -= BITS) node = node->array[(i >> level) & MASK]\<close>.
  A slot that is not a child node is a fault of the cast.
\<close>

function descend :: "'a VectorNode \<Rightarrow> nat \<Rightarrow> int \<Rightarrow> error + 'a VectorNode" where
  "descend node level i =
     (if level > 0 then
        (case array node ! nat (drop_bit level i AND MASK) of
           Child c \<Rightarrow> descend c (level - BITS) i
         | _ \<Rightarrow> Inl MemoryFault)
      else Inr node)"
  by pat_completeness auto
termination
  by (relation "measure (\<lambda>(node, level, i). level)") (auto simp: BITS_def)

declare descend.simps [simp del]

text \<open>A leaf slot read as an element: \<^verbatim>\<open>if (item == NULL) item = Py_None\<close>.\<close>

fun slot_item :: "'a slot \<Rightarrow> error + 'a PyObject" where
  "slot_item NULL = Inr Py_None"
| "slot_item (Item x) = Inr x"
| "slot_item (Child c) = Inl MemoryFault"

fun slot_items :: "'a slot list \<Rightarrow> error + 'a PyObject list" where
  "slot_items [] = Inr []"
| "slot_items (s # ss) =
     (case slot_item s of Inl e \<Rightarrow> Inl e
      | Inr x \<Rightarrow> (case slot_items ss of Inl e \<Rightarrow> Inl e | Inr xs \<Rightarrow> Inr (x # xs)))"

definition Vector_array_for :: "'a Vector \<Rightarrow> int \<Rightarrow> error + 'a PyObject list" where
  "Vector_array_for self i =
     (if i < 0 \<or> i \<ge> cnt self then Inl IndexError
      else if i \<ge> Vector_tail_off self then Inr (tail self)
      else (case descend (root self) (shift self) i of
              Inl e \<Rightarrow> Inl e
            | Inr node \<Rightarrow> slot_items (array node)))"

text \<open>\<^verbatim>\<open>PyTuple_GET_ITEM(arr, i & MASK)\<close> does not check the bound.\<close>

definition PyTuple_GET_ITEM :: "'b list \<Rightarrow> int \<Rightarrow> error + 'b" where
  "PyTuple_GET_ITEM arr j = (if 0 \<le> j \<and> j < int (length arr) then Inr (arr ! nat j) else Inl MemoryFault)"

text \<open>
  \<^verbatim>\<open>Vector_getitem\<close> on an integer key (the slice branch and the \<^verbatim>\<open>TypeError\<close> for other
  keys are not modelled). A negative index is first offset by the count.
\<close>

definition Vector_getitem :: "'a Vector \<Rightarrow> int \<Rightarrow> error + 'a PyObject" where
  "Vector_getitem self key =
     (case PyLong_AsSsize_t key of
        Inl e \<Rightarrow> Inl e
      | Inr i0 \<Rightarrow>
          (let i = (if i0 < 0 then cnt self + i0 else i0) in
           if i < 0 \<or> i \<ge> cnt self then Inl IndexError
           else (case Vector_array_for self i of
                   Inl e \<Rightarrow> Inl e
                 | Inr arr \<Rightarrow> PyTuple_GET_ITEM arr (i AND MASK))))"

subsection \<open>Append\<close>

function Vector_new_path :: "nat \<Rightarrow> 'a VectorNode \<Rightarrow> nat option \<Rightarrow> 'a VectorNode" where
  "Vector_new_path level node tid =
     (if level = 0 then node
      else VectorNode ((replicate WIDTH NULL)[0 := Child (Vector_new_path (level - BITS) node tid)]) tid)"
  by pat_completeness auto
termination
  by (relation "measure (\<lambda>(level, node, tid). level)") (auto simp: BITS_def)

declare Vector_new_path.simps [simp del]

text \<open>
  \<^verbatim>\<open>Vector_push_tail\<close>. In C a \<open>level\<close> below \<open>BITS\<close> would recurse without bound; it does
  not occur, since \<open>shift\<close> is a positive multiple of \<open>BITS\<close>. An editable parent is
  written in place, any other is cloned first; the value returned is the same.
\<close>

function Vector_push_tail ::
  "'a Vector \<Rightarrow> nat \<Rightarrow> 'a VectorNode \<Rightarrow> 'a VectorNode \<Rightarrow> nat option \<Rightarrow> error + 'a VectorNode" where
  "Vector_push_tail self level parent tail_node tid =
     (let subidx = nat (drop_bit level (cnt self - 1) AND MASK);
          ret = (if VectorNode_is_editable parent tid then parent else VectorNode_clone parent tid)
      in if level = BITS then
           Inr (VectorNode ((array ret)[subidx := Child tail_node]) (transient_id ret))
         else if level < BITS then Inl MemoryFault
         else (case array parent ! subidx of
                 Child c \<Rightarrow>
                   (case Vector_push_tail self (level - BITS) c tail_node tid of
                      Inl e \<Rightarrow> Inl e
                    | Inr n \<Rightarrow> Inr (VectorNode ((array ret)[subidx := Child n]) (transient_id ret)))
               | NULL \<Rightarrow>
                   Inr (VectorNode
                          ((array ret)[subidx := Child (Vector_new_path (level - BITS) tail_node tid)])
                          (transient_id ret))
               | Item x \<Rightarrow> Inl MemoryFault))"
  by pat_completeness auto
termination
  by (relation "measure (\<lambda>(self, level, parent, tail_node, tid). level)") (auto simp: BITS_def)

declare Vector_push_tail.simps [simp del]

text \<open>The leaf built from a full tail: the first \<open>WIDTH\<close> items, the rest \<^verbatim>\<open>NULL\<close>.\<close>

definition tail_to_node :: "'a PyObject list \<Rightarrow> nat option \<Rightarrow> 'a VectorNode" where
  "tail_to_node t tid =
     VectorNode (map Item (take WIDTH t) @ replicate (WIDTH - length (take WIDTH t)) NULL) tid"

text \<open>\<^verbatim>\<open>Vector_conj\<close>: every successful call returns an object made by \<^verbatim>\<open>Vector_create\<close>.\<close>

definition Vector_conj :: "'a Vector \<Rightarrow> 'a PyObject \<Rightarrow> error + 'a Vector" where
  "Vector_conj self val =
     (let tid = vec_transient_id self in
      if cnt self - Vector_tail_off self < int WIDTH then
        Inr (Vector_create (cnt self + 1) (shift self) (root self) (tail self @ [val]) tid)
      else
        (let tail_node = tail_to_node (tail self) tid in
         if drop_bit BITS (cnt self) > (2 :: int) ^ shift self then
           Inr (Vector_create (cnt self + 1) (shift self + BITS)
                  (VectorNode ((replicate WIDTH NULL)
                                 [0 := Child (root self),
                                  1 := Child (Vector_new_path (shift self) tail_node tid)]) tid)
                  [val] tid)
         else
           (case Vector_push_tail self (shift self) (root self) tail_node tid of
              Inl e \<Rightarrow> Inl e
            | Inr new_root \<Rightarrow> Inr (Vector_create (cnt self + 1) (shift self) new_root [val] tid))))"

subsection \<open>Pop\<close>

text \<open>
  \<^verbatim>\<open>Vector_pop_tail\<close> returns \<^verbatim>\<open>NULL\<close> (here \<open>None\<close>) when the node becomes empty.
\<close>

function Vector_pop_tail ::
  "'a Vector \<Rightarrow> nat \<Rightarrow> 'a VectorNode \<Rightarrow> error + 'a VectorNode option" where
  "Vector_pop_tail self level node =
     (let subidx = nat (drop_bit level (cnt self - 2) AND MASK) in
      if level > BITS then
        (case array node ! subidx of
           Child c \<Rightarrow>
             (case Vector_pop_tail self (level - BITS) c of
                Inl e \<Rightarrow> Inl e
              | Inr new_child \<Rightarrow>
                  if new_child = None \<and> subidx = 0 then Inr None
                  else Inr (Some (VectorNode
                         ((array node)[subidx := (case new_child of None \<Rightarrow> NULL | Some n \<Rightarrow> Child n)])
                         None)))
         | _ \<Rightarrow> Inl MemoryFault)
      else if subidx = 0 then Inr None
      else Inr (Some (VectorNode ((array node)[subidx := NULL]) None)))"
  by pat_completeness auto
termination
  by (relation "measure (\<lambda>(self, level, node). level)") (auto simp: BITS_def)

declare Vector_pop_tail.simps [simp del]

text \<open>
  \<^verbatim>\<open>Vector_pop\<close>: \<^verbatim>\<open>IndexError\<close> on the empty vector, the singleton \<^verbatim>\<open>EMPTY_VECTOR\<close> when one
  element is left, a new vector otherwise.
\<close>

definition Vector_pop :: "'a Vector \<Rightarrow> error + 'a Vector ref" where
  "Vector_pop self =
     (if cnt self = 0 then Inl IndexError
      else if cnt self = 1 then Inr Singleton
      else if cnt self - Vector_tail_off self > 1 then
        Inr (Fresh (Vector_create (cnt self - 1) (shift self) (root self) (butlast (tail self)) None))
      else
        (case Vector_array_for self (cnt self - 2) of
           Inl e \<Rightarrow> Inl e
         | Inr new_tail \<Rightarrow>
             (case Vector_pop_tail self (shift self) (root self) of
                Inl e \<Rightarrow> Inl e
              | Inr r \<Rightarrow>
                  (let new_root = (case r of None \<Rightarrow> EMPTY_NODE | Some n \<Rightarrow> n) in
                   if shift self > BITS \<and> array new_root ! 1 = NULL then
                     (case array new_root ! 0 of
                        Child c \<Rightarrow> Inr (Fresh (Vector_create (cnt self - 1) (shift self - BITS) c new_tail None))
                      | _ \<Rightarrow> Inl MemoryFault)
                   else Inr (Fresh (Vector_create (cnt self - 1) (shift self) new_root new_tail None))))))"

subsection \<open>Appending a sequence\<close>

text \<open>
  The scenarios of the specification build a vector by appending elements in order to the
  empty vector; \<open>conj_all\<close> is that loop, stopping at the first error.
\<close>

fun conj_all :: "'a Vector \<Rightarrow> 'a PyObject list \<Rightarrow> error + 'a Vector" where
  "conj_all v [] = Inr v"
| "conj_all v (x # xs) = (case Vector_conj v x of Inl e \<Rightarrow> Inl e | Inr v' \<Rightarrow> conj_all v' xs)"

section \<open>SortedVector\<close>

text \<open>
  \<^verbatim>\<open>struct RBNode { PyObject *value; PyObject *sort_key; RBNode *left; RBNode *right;
  Py_ssize_t size; unsigned char color; PyObject *edit; }\<close>, with \<open>RB_NULL\<close> for the
  \<^verbatim>\<open>NULL\<close> pointer. Values and sort keys are host objects; the functions that compare
  them take the comparison of the host as a parameter.
\<close>

datatype color = RB_RED | RB_BLACK

datatype 'a RBNode = RB_NULL
  | RBNode (rb_value: 'a) (rb_sort_key: 'a) (rb_left: "'a RBNode") (rb_right: "'a RBNode")
      (rb_size: int) (rb_color: color) (rb_edit: "nat option")

text \<open>
  \<^verbatim>\<open>struct SortedVector { RBNode *root; Py_ssize_t cnt; PyObject *key_fn; int reverse; }\<close>;
  \<open>sv_key_fn = None\<close> is the \<^verbatim>\<open>NULL\<close> key function (the element is its own key).
\<close>

record 'a SortedVector =
  sv_root :: "'a RBNode"
  sv_cnt :: int
  sv_key_fn :: "('a \<Rightarrow> 'a) option"
  sv_reverse :: bool

text \<open>
  Module initialisation: \<^verbatim>\<open>EMPTY_SORTED_VECTOR\<close> has \<^verbatim>\<open>root = NULL\<close>, \<^verbatim>\<open>cnt = 0\<close>,
  \<^verbatim>\<open>key_fn = NULL\<close>, \<^verbatim>\<open>reverse = 0\<close>.
\<close>

definition EMPTY_SORTED_VECTOR :: "'a SortedVector" where
  "EMPTY_SORTED_VECTOR = \<lparr>sv_root = RB_NULL, sv_cnt = 0, sv_key_fn = None, sv_reverse = False\<rparr>"

text \<open>The loops \<^verbatim>\<open>while (node->left) node = node->left\<close> and \<^verbatim>\<open>while (node->right) ...\<close>.\<close>

fun leftmost :: "'a RBNode \<Rightarrow> error + 'a" where
  "leftmost RB_NULL = Inl MemoryFault"
| "leftmost (RBNode v k l r s c e) = (case l of RB_NULL \<Rightarrow> Inr v | _ \<Rightarrow> leftmost l)"

fun rightmost :: "'a RBNode \<Rightarrow> error + 'a" where
  "rightmost RB_NULL = Inl MemoryFault"
| "rightmost (RBNode v k l r s c e) = (case r of RB_NULL \<Rightarrow> Inr v | _ \<Rightarrow> rightmost r)"

text \<open>\<^verbatim>\<open>SortedVector_first\<close>, \<^verbatim>\<open>SortedVector_last\<close>: \<^verbatim>\<open>if (self->cnt == 0) Py_RETURN_NONE\<close>.\<close>

definition SortedVector_first :: "'a SortedVector \<Rightarrow> error + 'a PyObject" where
  "SortedVector_first self =
     (if sv_cnt self = 0 then Inr Py_None
      else (case leftmost (sv_root self) of Inl e \<Rightarrow> Inl e | Inr v \<Rightarrow> Inr (Obj v)))"

definition SortedVector_last :: "'a SortedVector \<Rightarrow> error + 'a PyObject" where
  "SortedVector_last self =
     (if sv_cnt self = 0 then Inr Py_None
      else (case rightmost (sv_root self) of Inl e \<Rightarrow> Inl e | Inr v \<Rightarrow> Inr (Obj v)))"

subsection \<open>The vector holding 0..1024\<close>

text \<open>
  The vector with the integers \<open>0..1024\<close>: a root of depth one whose 32 slots are the full
  leaves \<open>32 j .. 32 j + 31\<close>, and a tail with the one element \<open>1024\<close>.
\<close>

definition full_leaf :: "int \<Rightarrow> int VectorNode" where
  "full_leaf j = VectorNode (map (\<lambda>i. Item (Obj (32 * j + i))) [0..31]) None"

definition vec_0_1024 :: "int Vector" where
  "vec_0_1024 =
     Vector_create 1025 5 (VectorNode (map (\<lambda>j. Child (full_leaf j)) [0..31]) None) [Obj 1024] None"

text \<open>The vector with the integers \<open>0..31\<close>: an empty root and a full tail.\<close>

definition vec_0_31 :: "int Vector" where
  "vec_0_31 = Vector_create 32 5 EMPTY_NODE (map Obj [0..31]) None"

section \<open>Hash array mapped trie\<close>

subsection \<open>Bit utilities\<close>

text \<open>
  \<^verbatim>\<open>ctpop\<close> is the population count of an \<^verbatim>\<open>unsigned int\<close>; the portable branch of the
  source is the loop \<^verbatim>\<open>while (i) { count += i & 1; i >>= 1; }\<close>.
\<close>

function ctpop :: "32 word \<Rightarrow> nat" where
  "ctpop i = (if i = 0 then 0 else unat (i AND 1) + ctpop (drop_bit 1 i))"
  by pat_completeness auto
termination
proof (relation "measure unat")
  fix i :: "32 word"
  assume "i \<noteq> 0"
  then have "unat i \<noteq> 0"
    by (simp add: unat_eq_zero)
  then have "unat i div 2 < unat i"
    by simp
  then show "(drop_bit 1 i, i) \<in> measure unat"
    by (simp add: drop_bit_eq_div unat_div)
qed simp

declare ctpop.simps [simp del]

text \<open>
  \<^verbatim>\<open>Py_hash_t\<close> is a signed 64-bit integer; \<^verbatim>\<open>hash_val >> shift\<close> is an arithmetic shift.
  The callers below never shift by 64 or more.
\<close>

definition mask_hash :: "64 word \<Rightarrow> nat \<Rightarrow> nat" where
  "mask_hash hash_val sh = unat (signed_drop_bit sh hash_val AND 31)"

definition bitpos :: "64 word \<Rightarrow> nat \<Rightarrow> 32 word" where
  "bitpos hash_val sh = push_bit (mask_hash hash_val sh) 1"

definition bitmap_index :: "32 word \<Rightarrow> 32 word \<Rightarrow> nat" where
  "bitmap_index bm bt = ctpop (bm AND (bt - 1))"

subsection \<open>Nodes\<close>

text \<open>
  The three node structs. A bitmap-indexed node holds the list
  \<^verbatim>\<open>[key_or_null, val_or_node, ...]\<close>; a pair of it is modelled as \<open>SubNode n\<close> for
  \<^verbatim>\<open>(Py_None, n)\<close> with \<open>n\<close> a node, and as \<open>Entry k v\<close> for a key and a value. The C code tells
  the two apart by \<^verbatim>\<open>key_or_null == Py_None\<close> alone, so it reads \<open>Entry Py_None v\<close> as a child
  and casts the value \<open>v\<close> to a node. An array node holds \<open>WIDTH\<close> pointers, each
  \<^verbatim>\<open>Py_None\<close> (here \<open>None\<close>) or a node. A hash-collision node holds \<^verbatim>\<open>[k1, v1, k2, v2, ...]\<close>.
  The edit tokens of the nodes are left out: every function below is the persistent
  call, with \<^verbatim>\<open>transient_id == NULL\<close>, for which \<^verbatim>\<open>*_ensure_editable\<close> always copies.
\<close>

datatype ('k, 'v) MapNode =
    BitmapIndexedNode (bin_bitmap: "32 word") (bin_array: "('k, 'v) slot_pair list")
  | ArrayNode (an_count: int) (an_array: "('k, 'v) MapNode option list")
  | HashCollisionNode (hcn_hash: "64 word") (hcn_count: int)
      (hcn_array: "('k PyObject \<times> 'v PyObject) list")
and ('k, 'v) slot_pair = Entry "'k PyObject" "'v PyObject" | SubNode "('k, 'v) MapNode"

definition EMPTY_BIN :: "('k, 'v) MapNode" where
  "EMPTY_BIN = BitmapIndexedNode 0 []"

text \<open>
  The pointer a node function returns: the receiver (\<^verbatim>\<open>Py_INCREF(self); return self\<close>),
  a node built by the call, or \<^verbatim>\<open>Py_None\<close>. The callers compare it with the child
  pointer (\<^verbatim>\<open>n == val_or_node\<close>), which is \<open>Same\<close> here.
\<close>

datatype 'n node_ret = Same | Replaced 'n | Gone

definition the_node :: "'n \<Rightarrow> 'n node_ret \<Rightarrow> error + 'n" where
  "the_node self r = (case r of Same \<Rightarrow> Inr self | Replaced n \<Rightarrow> Inr n | Gone \<Rightarrow> Inl MemoryFault)"

text \<open>
  \<^verbatim>\<open>HashCollisionNode_find_index\<close>: the loop over the first \<open>count\<close> pairs (the index
  returned here counts pairs, the C index counts list items).
\<close>

function find_index_from ::
  "nat \<Rightarrow> nat \<Rightarrow> ('k PyObject \<times> 'v PyObject) list \<Rightarrow> 'k PyObject \<Rightarrow> error + nat option" where
  "find_index_from i n arr key =
     (if i < n then
        (if i < length arr then
           (if fst (arr ! i) = key then Inr (Some i) else find_index_from (Suc i) n arr key)
         else Inl MemoryFault)
      else Inr None)"
  by pat_completeness auto
termination
  by (relation "measure (\<lambda>(i, n, arr, key). n - i)") auto

declare find_index_from.simps [simp del]

definition HashCollisionNode_find_index ::
  "int \<Rightarrow> ('k PyObject \<times> 'v PyObject) list \<Rightarrow> 'k PyObject \<Rightarrow> error + nat option" where
  "HashCollisionNode_find_index count arr key = find_index_from 0 (nat count) arr key"

subsection \<open>Lookup\<close>

text \<open>
  \<^verbatim>\<open>BitmapIndexedNode_find\<close>, \<^verbatim>\<open>ArrayNode_find\<close> and \<^verbatim>\<open>HashCollisionNode_find\<close>, one equation
  each; the C callers pick the function by the type of the node. The result \<open>None\<close> is
  the \<^verbatim>\<open>not_found\<close> object handed in.
\<close>

function node_find ::
  "('k, 'v) MapNode \<Rightarrow> nat \<Rightarrow> 64 word \<Rightarrow> 'k PyObject \<Rightarrow> error + 'v PyObject option" where
  "node_find (BitmapIndexedNode bm arr) sh hash_val key =
     (if sh \<ge> 64 then Inl MemoryFault
      else
        (let bt = bitpos hash_val sh in
         if bm AND bt = 0 then Inr None
         else
           (let idx = bitmap_index bm bt in
            if idx \<ge> length arr then Inl MemoryFault
            else
              (case arr ! idx of
                 SubNode child \<Rightarrow> node_find child (sh + BITS) hash_val key
               | Entry key_or_null val_or_node \<Rightarrow>
                   if key_or_null = Py_None then Inl MemoryFault
                   else if key = key_or_null then Inr (Some val_or_node)
                   else Inr None))))"
| "node_find (ArrayNode count arr) sh hash_val key =
     (if sh \<ge> 64 then Inl MemoryFault
      else
        (let idx = mask_hash hash_val sh in
         if idx \<ge> length arr then Inl MemoryFault
         else
           (case arr ! idx of
              None \<Rightarrow> Inr None
            | Some node \<Rightarrow> node_find node (sh + BITS) hash_val key)))"
| "node_find (HashCollisionNode hash count arr) sh hash_val key =
     (case HashCollisionNode_find_index count arr key of
        Inl e \<Rightarrow> Inl e
      | Inr None \<Rightarrow> Inr None
      | Inr (Some idx) \<Rightarrow> Inr (Some (snd (arr ! idx))))"
  by pat_completeness auto
termination
  by (relation "measure (\<lambda>(node, sh, hash_val, key). 64 - sh)") (auto simp: BITS_def)

subsection \<open>Insertion\<close>

text \<open>
  \<^verbatim>\<open>BitmapIndexedNode_assoc\<close>, \<^verbatim>\<open>ArrayNode_assoc\<close>, \<^verbatim>\<open>HashCollisionNode_assoc\<close> (one equation
  each of \<open>node_assoc\<close>) and \<^verbatim>\<open>create_node\<close>. \<open>PyObject_Hash\<close> is the hash function of the host.
  The second component of the result is the number of items the call appends to the
  list \<^verbatim>\<open>added_leaf\<close>.
\<close>

subsection \<open>Insertion\<close>

text \<open>Running a list of fallible steps, stopping at the first error.\<close>

fun sequence_res :: "(error + 'b) list \<Rightarrow> error + 'b list" where
  "sequence_res [] = Inr []"
| "sequence_res (r # rs) =
     (case r of Inl e \<Rightarrow> Inl e
      | Inr x \<Rightarrow> (case sequence_res rs of Inl e \<Rightarrow> Inl e | Inr xs \<Rightarrow> Inr (x # xs)))"

text \<open>The indices \<open>i\<close> with \<^verbatim>\<open>(bitmap >> i) & 1\<close>, in increasing order.\<close>

definition set_bit_indices :: "32 word \<Rightarrow> nat list" where
  "set_bit_indices bm = filter (\<lambda>i. drop_bit i bm AND 1 = 1) [0..<WIDTH]"

text \<open>
  \<^verbatim>\<open>BitmapIndexedNode_assoc\<close>, \<^verbatim>\<open>ArrayNode_assoc\<close>, \<^verbatim>\<open>HashCollisionNode_assoc\<close> (one equation
  each of \<open>node_assoc\<close>) and \<^verbatim>\<open>create_node\<close>. \<open>PyObject_Hash\<close> is the hash function of the
  host. The second component of the result is the number of items the call appends to
  the list \<^verbatim>\<open>added_leaf\<close>. In the promotion to an array node, an \<open>Entry Py_None v\<close> would
  store the value \<open>v\<close> as a child node; that is a fault here.  The tests
  \<^verbatim>\<open>val == val_or_node\<close> and \<^verbatim>\<open>existing == val\<close> of the source are on pointers; they are read as
  equality of the values.
\<close>

function node_assoc ::
  "('k PyObject \<Rightarrow> 64 word) \<Rightarrow> ('k, 'v) MapNode \<Rightarrow> nat \<Rightarrow> 64 word \<Rightarrow> 'k PyObject \<Rightarrow> 'v PyObject
     \<Rightarrow> error + (('k, 'v) MapNode node_ret \<times> nat)"
and create_node ::
  "('k PyObject \<Rightarrow> 64 word) \<Rightarrow> nat \<Rightarrow> 'k PyObject \<Rightarrow> 'v PyObject \<Rightarrow> 64 word \<Rightarrow> 'k PyObject
     \<Rightarrow> 'v PyObject \<Rightarrow> error + ('k, 'v) MapNode" where
  "node_assoc PyObject_Hash (BitmapIndexedNode bm arr) sh hash_val key val =
     (if sh \<ge> 64 then Inl MemoryFault
      else
        (let bt = bitpos hash_val sh; idx = bitmap_index bm bt in
         if bm AND bt \<noteq> 0 then
           (if idx \<ge> length arr then Inl MemoryFault
            else
              (case arr ! idx of
                 SubNode child \<Rightarrow>
                   (case node_assoc PyObject_Hash child (sh + BITS) hash_val key val of
                      Inl e \<Rightarrow> Inl e
                    | Inr (Same, added) \<Rightarrow> Inr (Same, added)
                    | Inr (Replaced n, added) \<Rightarrow>
                        Inr (Replaced (BitmapIndexedNode bm (arr[idx := SubNode n])), added)
                    | Inr (Gone, added) \<Rightarrow> Inl MemoryFault)
               | Entry key_or_null val_or_node \<Rightarrow>
                   if key_or_null = Py_None then Inl MemoryFault
                   else if key = key_or_null then
                     (if val = val_or_node then Inr (Same, 0)
                      else Inr (Replaced (BitmapIndexedNode bm (arr[idx := Entry key_or_null val])), 0))
                   else
                     (case create_node PyObject_Hash (sh + BITS) key_or_null val_or_node hash_val key val of
                        Inl e \<Rightarrow> Inl e
                      | Inr new_node \<Rightarrow>
                          Inr (Replaced (BitmapIndexedNode bm (arr[idx := SubNode new_node])), 1))))
         else
           (let n = ctpop bm in
            if n \<ge> WIDTH div 2 then
              (if length arr < n then Inl MemoryFault
               else
                 (case node_assoc PyObject_Hash EMPTY_BIN (sh + BITS) hash_val key val of
                    Inl e \<Rightarrow> Inl e
                  | Inr (r, added) \<Rightarrow>
                      (case the_node EMPTY_BIN r of
                         Inl e \<Rightarrow> Inl e
                       | Inr new_bin \<Rightarrow>
                           (case sequence_res
                                   (map (\<lambda>(i, p).
                                           (case p of
                                              SubNode c \<Rightarrow> Inr (i, c)
                                            | Entry k v \<Rightarrow>
                                                if k = Py_None then Inl MemoryFault
                                                else
                                                  (case node_assoc PyObject_Hash EMPTY_BIN (sh + BITS)
                                                          (PyObject_Hash k) k v of
                                                     Inl e \<Rightarrow> Inl e
                                                   | Inr (r', a') \<Rightarrow>
                                                       (case the_node EMPTY_BIN r' of
                                                          Inl e \<Rightarrow> Inl e
                                                        | Inr c \<Rightarrow> Inr (i, c)))))
                                      (zip (set_bit_indices bm) arr)) of
                              Inl e \<Rightarrow> Inl e
                            | Inr children \<Rightarrow>
                                Inr (Replaced
                                       (ArrayNode (int n + 1)
                                          (fold (\<lambda>(i, c) nodes. nodes[i := Some c]) children
                                             ((replicate WIDTH None)[mask_hash hash_val sh := Some new_bin]))),
                                     added)))))
            else
              Inr (Replaced (BitmapIndexedNode (bm OR bt) (take idx arr @ [Entry key val] @ drop idx arr)),
                   1))))"
| "node_assoc PyObject_Hash (ArrayNode count arr) sh hash_val key val =
     (if sh \<ge> 64 then Inl MemoryFault
      else
        (let idx = mask_hash hash_val sh in
         if idx \<ge> length arr then Inl MemoryFault
         else
           (case arr ! idx of
              None \<Rightarrow>
                (case node_assoc PyObject_Hash EMPTY_BIN (sh + BITS) hash_val key val of
                   Inl e \<Rightarrow> Inl e
                 | Inr (r, al_fresh) \<Rightarrow>
                     (case the_node EMPTY_BIN r of
                        Inl e \<Rightarrow> Inl e
                      | Inr new_node \<Rightarrow>
                          Inr (Replaced (ArrayNode (count + 1) (arr[idx := Some new_node])), 1)))
            | Some node \<Rightarrow>
                (case node_assoc PyObject_Hash node (sh + BITS) hash_val key val of
                   Inl e \<Rightarrow> Inl e
                 | Inr (Same, added) \<Rightarrow> Inr (Same, added)
                 | Inr (Replaced n, added) \<Rightarrow> Inr (Replaced (ArrayNode count (arr[idx := Some n])), added)
                 | Inr (Gone, added) \<Rightarrow> Inl MemoryFault))))"
| "node_assoc PyObject_Hash (HashCollisionNode hash count arr) sh hash_val key val =
     (if hash_val = hash then
        (case HashCollisionNode_find_index count arr key of
           Inl e \<Rightarrow> Inl e
         | Inr (Some idx) \<Rightarrow>
             if snd (arr ! idx) = val then Inr (Same, 0)
             else Inr (Replaced (HashCollisionNode hash count (arr[idx := (fst (arr ! idx), val)])), 0)
         | Inr None \<Rightarrow> Inr (Replaced (HashCollisionNode hash (count + 1) (arr @ [(key, val)])), 1))
      else if sh \<ge> 64 then Inl MemoryFault
      else
        (case node_assoc PyObject_Hash
                (BitmapIndexedNode (bitpos hash sh) [SubNode (HashCollisionNode hash count arr)])
                sh hash_val key val of
           Inl e \<Rightarrow> Inl e
         | Inr (r, added) \<Rightarrow>
             (case the_node (BitmapIndexedNode (bitpos hash sh) [SubNode (HashCollisionNode hash count arr)]) r of
                Inl e \<Rightarrow> Inl e
              | Inr n \<Rightarrow> Inr (Replaced n, added))))"
| "create_node PyObject_Hash sh key1 val1 hash2 key2 val2 =
     (let hash1 = PyObject_Hash key1 in
      if hash1 = hash2 then Inr (HashCollisionNode hash1 2 [(key1, val1), (key2, val2)])
      else
        (case node_assoc PyObject_Hash EMPTY_BIN sh hash1 key1 val1 of
           Inl e \<Rightarrow> Inl e
         | Inr (r1, a1) \<Rightarrow>
             (case the_node EMPTY_BIN r1 of
                Inl e \<Rightarrow> Inl e
              | Inr n1 \<Rightarrow>
                  (case node_assoc PyObject_Hash n1 sh hash2 key2 val2 of
                     Inl e \<Rightarrow> Inl e
                   | Inr (r2, a2) \<Rightarrow> the_node n1 r2))))"
  by pat_completeness auto
termination
  by (relation "measure (\<lambda>x. case x of
         Inl (PyObject_Hash, node, sh, hash_val, key, val) \<Rightarrow>
           3 * (69 - sh) + (case node of HashCollisionNode h c a \<Rightarrow> 1 | _ \<Rightarrow> 0)
       | Inr (PyObject_Hash, sh, key1, val1, hash2, key2, val2) \<Rightarrow> 3 * (69 - sh) + 2)")
     (auto simp: BITS_def EMPTY_BIN_def split: MapNode.splits)

declare node_assoc.simps [simp del] create_node.simps [simp del]

subsection \<open>Removal\<close>

text \<open>
  \<^verbatim>\<open>ArrayNode_pack\<close>: the children other than slot \<open>idx\<close>, in slot order, each as the pair
  \<^verbatim>\<open>(Py_None, node)\<close>, under the bitmap of their slot indices.
\<close>

definition ArrayNode_pack :: "('k, 'v) MapNode option list \<Rightarrow> nat \<Rightarrow> ('k, 'v) MapNode" where
  "ArrayNode_pack arr idx =
     (let (new_array, bm) =
        fold (\<lambda>i (new_array, bm).
                (case arr ! i of
                   Some node \<Rightarrow>
                     if i \<noteq> idx then (new_array @ [SubNode node], bm OR push_bit i 1)
                     else (new_array, bm)
                 | None \<Rightarrow> (new_array, bm)))
          [0..<WIDTH] ([], 0)
      in BitmapIndexedNode bm new_array)"

text \<open>
  \<^verbatim>\<open>BitmapIndexedNode_dissoc\<close>, \<^verbatim>\<open>ArrayNode_dissoc\<close> and \<^verbatim>\<open>HashCollisionNode_dissoc\<close>, as called
  by \<^verbatim>\<open>Map_dissoc\<close> and \<^verbatim>\<open>Set_disj\<close>, that is with \<^verbatim>\<open>removed_leaf == NULL\<close>.
\<close>

function node_dissoc ::
  "('k, 'v) MapNode \<Rightarrow> nat \<Rightarrow> 64 word \<Rightarrow> 'k PyObject \<Rightarrow> error + ('k, 'v) MapNode node_ret" where
  "node_dissoc (BitmapIndexedNode bm arr) sh hash_val key =
     (if sh \<ge> 64 then Inl MemoryFault
      else
        (let bt = bitpos hash_val sh in
         if bm AND bt = 0 then Inr Same
         else
           (let idx = bitmap_index bm bt in
            if idx \<ge> length arr then Inl MemoryFault
            else
              (case arr ! idx of
                 SubNode child \<Rightarrow>
                   (case node_dissoc child (sh + BITS) hash_val key of
                      Inl e \<Rightarrow> Inl e
                    | Inr Same \<Rightarrow> Inr Same
                    | Inr (Replaced n) \<Rightarrow> Inr (Replaced (BitmapIndexedNode bm (arr[idx := SubNode n])))
                    | Inr Gone \<Rightarrow>
                        if bm = bt then Inr Gone
                        else Inr (Replaced (BitmapIndexedNode (bm XOR bt)
                                              (take idx arr @ drop (Suc idx) arr))))
               | Entry key_or_null val_or_node \<Rightarrow>
                   if key_or_null = Py_None then Inl MemoryFault
                   else if key = key_or_null then
                     (if bm = bt then Inr Gone
                      else Inr (Replaced (BitmapIndexedNode (bm XOR bt)
                                            (take idx arr @ drop (Suc idx) arr))))
                   else Inr Same))))"
| "node_dissoc (ArrayNode count arr) sh hash_val key =
     (if sh \<ge> 64 then Inl MemoryFault
      else
        (let idx = mask_hash hash_val sh in
         if idx \<ge> length arr then Inl MemoryFault
         else
           (case arr ! idx of
              None \<Rightarrow> Inr Same
            | Some node \<Rightarrow>
                (case node_dissoc node (sh + BITS) hash_val key of
                   Inl e \<Rightarrow> Inl e
                 | Inr Same \<Rightarrow> Inr Same
                 | Inr Gone \<Rightarrow>
                     if count \<le> int (WIDTH div 4) then Inr (Replaced (ArrayNode_pack arr idx))
                     else Inr (Replaced (ArrayNode (count - 1) (arr[idx := None])))
                 | Inr (Replaced n) \<Rightarrow> Inr (Replaced (ArrayNode count (arr[idx := Some n])))))))"
| "node_dissoc (HashCollisionNode hash count arr) sh hash_val key =
     (case HashCollisionNode_find_index count arr key of
        Inl e \<Rightarrow> Inl e
      | Inr None \<Rightarrow> Inr Same
      | Inr (Some idx) \<Rightarrow>
          if count = 1 then Inr Gone
          else Inr (Replaced (HashCollisionNode hash (count - 1) (take idx arr @ drop (Suc idx) arr))))"
  by pat_completeness auto
termination
  by (relation "measure (\<lambda>(node, sh, hash_val, key). 64 - sh)") (auto simp: BITS_def)

declare node_find.simps [simp del] node_dissoc.simps [simp del]

section \<open>HashMap\<close>

text \<open>
  \<^verbatim>\<open>struct Map { Py_ssize_t cnt; PyObject *root; ...; PyObject *transient_id; }\<close>, with
  \<open>None\<close> for the \<^verbatim>\<open>NULL\<close> root of an empty map. The memoised hash is left out.
\<close>

record ('k, 'v) Map =
  m_cnt :: int
  m_root :: "('k, 'v) MapNode option"
  m_transient_id :: "nat option"

definition Map_create :: "int \<Rightarrow> ('k, 'v) MapNode option \<Rightarrow> nat option \<Rightarrow> ('k, 'v) Map" where
  "Map_create c r tid = \<lparr>m_cnt = c, m_root = r, m_transient_id = tid\<rparr>"

text \<open>Module initialisation: \<^verbatim>\<open>EMPTY_MAP = Map_create(0, NULL, NULL)\<close>.\<close>

definition EMPTY_MAP :: "('k, 'v) Map" where
  "EMPTY_MAP = Map_create 0 None None"

definition Map_length :: "('k, 'v) Map \<Rightarrow> int" where
  "Map_length self = m_cnt self"

definition Map_get ::
  "('k PyObject \<Rightarrow> 64 word) \<Rightarrow> ('k, 'v) Map \<Rightarrow> 'k PyObject \<Rightarrow> 'v PyObject \<Rightarrow> error + 'v PyObject" where
  "Map_get PyObject_Hash self key default_val =
     (case m_root self of
        None \<Rightarrow> Inr default_val
      | Some r \<Rightarrow>
          (case node_find r 0 (PyObject_Hash key) key of
             Inl e \<Rightarrow> Inl e
           | Inr None \<Rightarrow> Inr default_val
           | Inr (Some v) \<Rightarrow> Inr v))"

definition Map_getitem ::
  "('k PyObject \<Rightarrow> 64 word) \<Rightarrow> ('k, 'v) Map \<Rightarrow> 'k PyObject \<Rightarrow> error + 'v PyObject" where
  "Map_getitem PyObject_Hash self key =
     (case m_root self of
        None \<Rightarrow> Inl KeyError
      | Some r \<Rightarrow>
          (case node_find r 0 (PyObject_Hash key) key of
             Inl e \<Rightarrow> Inl e
           | Inr None \<Rightarrow> Inl KeyError
           | Inr (Some v) \<Rightarrow> Inr v))"

definition Map_contains ::
  "('k PyObject \<Rightarrow> 64 word) \<Rightarrow> ('k, 'v) Map \<Rightarrow> 'k PyObject \<Rightarrow> error + bool" where
  "Map_contains PyObject_Hash self key =
     (case m_root self of
        None \<Rightarrow> Inr False
      | Some r \<Rightarrow>
          (case node_find r 0 (PyObject_Hash key) key of
             Inl e \<Rightarrow> Inl e
           | Inr result \<Rightarrow> Inr (result \<noteq> None)))"

text \<open>
  \<^verbatim>\<open>Map_assoc\<close>: the receiver when the root pointer is unchanged, else a new map whose
  count is \<^verbatim>\<open>self->cnt + PyList_Size(added_leaf)\<close>.
\<close>

definition Map_assoc ::
  "('k PyObject \<Rightarrow> 64 word) \<Rightarrow> ('k, 'v) Map \<Rightarrow> 'k PyObject \<Rightarrow> 'v PyObject \<Rightarrow> error + ('k, 'v) Map ref" where
  "Map_assoc PyObject_Hash self key val =
     (case node_assoc PyObject_Hash (case m_root self of None \<Rightarrow> EMPTY_BIN | Some r \<Rightarrow> r) 0
             (PyObject_Hash key) key val of
        Inl e \<Rightarrow> Inl e
      | Inr (Same, added) \<Rightarrow>
          (case m_root self of
             Some r \<Rightarrow> Inr Self
           | None \<Rightarrow> Inr (Fresh (Map_create (m_cnt self + int added) (Some EMPTY_BIN) (m_transient_id self))))
      | Inr (Replaced new_root, added) \<Rightarrow>
          Inr (Fresh (Map_create (m_cnt self + int added) (Some new_root) (m_transient_id self)))
      | Inr (Gone, added) \<Rightarrow> Inl MemoryFault)"

text \<open>
  \<^verbatim>\<open>Map_dissoc\<close>: the receiver when the root pointer is unchanged; else a new map, with
  count 0 and no root when the root became \<^verbatim>\<open>Py_None\<close>, and with count \<^verbatim>\<open>self->cnt - 1\<close>
  otherwise.
\<close>

definition Map_dissoc ::
  "('k PyObject \<Rightarrow> 64 word) \<Rightarrow> ('k, 'v) Map \<Rightarrow> 'k PyObject \<Rightarrow> error + ('k, 'v) Map ref" where
  "Map_dissoc PyObject_Hash self key =
     (case m_root self of
        None \<Rightarrow> Inr Self
      | Some r \<Rightarrow>
          (case node_dissoc r 0 (PyObject_Hash key) key of
             Inl e \<Rightarrow> Inl e
           | Inr Same \<Rightarrow> Inr Self
           | Inr Gone \<Rightarrow> Inr (Fresh (Map_create 0 None (m_transient_id self)))
           | Inr (Replaced new_root) \<Rightarrow>
               Inr (Fresh (Map_create (m_cnt self - 1) (Some new_root) (m_transient_id self)))))"

section \<open>HashSet\<close>

text \<open>
  \<^verbatim>\<open>struct Set\<close> has the fields of \<^verbatim>\<open>struct Map\<close>; the trie stores \<^verbatim>\<open>Py_None\<close> as every value.
\<close>

record 'k Set =
  s_cnt :: int
  s_root :: "('k, unit) MapNode option"
  s_transient_id :: "nat option"

definition Set_create :: "int \<Rightarrow> ('k, unit) MapNode option \<Rightarrow> nat option \<Rightarrow> 'k Set" where
  "Set_create c r tid = \<lparr>s_cnt = c, s_root = r, s_transient_id = tid\<rparr>"

definition EMPTY_SET :: "'k Set" where
  "EMPTY_SET = Set_create 0 None None"

definition Set_contains :: "('k PyObject \<Rightarrow> 64 word) \<Rightarrow> 'k Set \<Rightarrow> 'k PyObject \<Rightarrow> error + bool" where
  "Set_contains PyObject_Hash self key =
     (case s_root self of
        None \<Rightarrow> Inr False
      | Some r \<Rightarrow>
          (case node_find r 0 (PyObject_Hash key) key of
             Inl e \<Rightarrow> Inl e
           | Inr result \<Rightarrow> Inr (result \<noteq> None)))"

definition Set_conj :: "('k PyObject \<Rightarrow> 64 word) \<Rightarrow> 'k Set \<Rightarrow> 'k PyObject \<Rightarrow> error + 'k Set ref" where
  "Set_conj PyObject_Hash self key =
     (case node_assoc PyObject_Hash (case s_root self of None \<Rightarrow> EMPTY_BIN | Some r \<Rightarrow> r) 0
             (PyObject_Hash key) key Py_None of
        Inl e \<Rightarrow> Inl e
      | Inr (Same, added) \<Rightarrow>
          (case s_root self of
             Some r \<Rightarrow> Inr Self
           | None \<Rightarrow> Inr (Fresh (Set_create (s_cnt self + int added) (Some EMPTY_BIN) (s_transient_id self))))
      | Inr (Replaced new_root, added) \<Rightarrow>
          Inr (Fresh (Set_create (s_cnt self + int added) (Some new_root) (s_transient_id self)))
      | Inr (Gone, added) \<Rightarrow> Inl MemoryFault)"

definition Set_disj :: "('k PyObject \<Rightarrow> 64 word) \<Rightarrow> 'k Set \<Rightarrow> 'k PyObject \<Rightarrow> error + 'k Set ref" where
  "Set_disj PyObject_Hash self key =
     (case s_root self of
        None \<Rightarrow> Inr Self
      | Some r \<Rightarrow>
          (case node_dissoc r 0 (PyObject_Hash key) key of
             Inl e \<Rightarrow> Inl e
           | Inr Same \<Rightarrow> Inr Self
           | Inr Gone \<Rightarrow> Inr (Fresh (Set_create 0 None (s_transient_id self)))
           | Inr (Replaced new_root) \<Rightarrow>
               Inr (Fresh (Set_create (s_cnt self - 1) (Some new_root) (s_transient_id self)))))"

subsection \<open>Scenario helpers\<close>

text \<open>
  Inserting and removing a list of keys, following the returned pointer each time
  (\<open>deref\<close> gives the map it points to).
\<close>

fun assoc_all ::
  "('k PyObject \<Rightarrow> 64 word) \<Rightarrow> ('k, 'v) Map \<Rightarrow> ('k PyObject \<times> 'v PyObject) list
     \<Rightarrow> error + ('k, 'v) Map" where
  "assoc_all h m [] = Inr m"
| "assoc_all h m ((k, v) # kvs) =
     (case Map_assoc h m k v of Inl e \<Rightarrow> Inl e | Inr r \<Rightarrow> assoc_all h (deref EMPTY_MAP m r) kvs)"

fun dissoc_all ::
  "('k PyObject \<Rightarrow> 64 word) \<Rightarrow> ('k, 'v) Map \<Rightarrow> 'k PyObject list \<Rightarrow> error + ('k, 'v) Map" where
  "dissoc_all h m [] = Inr m"
| "dissoc_all h m (k # ks) =
     (case Map_dissoc h m k of Inl e \<Rightarrow> Inl e | Inr r \<Rightarrow> dissoc_all h (deref EMPTY_MAP m r) ks)"

text \<open>The kind of the root node of a map, with its number of slots, children or entries.\<close>

datatype root_kind = No_root | Bitmap_indexed nat | Array int | Hash_collision int

definition root_kind :: "('k, 'v) Map \<Rightarrow> root_kind" where
  "root_kind m =
     (case m_root m of
        None \<Rightarrow> No_root
      | Some (BitmapIndexedNode bm arr) \<Rightarrow> Bitmap_indexed (length arr)
      | Some (ArrayNode count arr) \<Rightarrow> Array count
      | Some (HashCollisionNode hash count arr) \<Rightarrow> Hash_collision count)"

text \<open>
  A hash function for the scenarios, on keys that are natural numbers: the key modulo
  100, so that \<open>n\<close> and \<open>n + 100\<close> collide and the keys \<open>0..31\<close> fall into distinct slots of
  the root.
\<close>

definition hash_mod_100 :: "nat PyObject \<Rightarrow> 64 word" where
  "hash_mod_100 k = (case k of Py_None \<Rightarrow> 4242 | Obj n \<Rightarrow> word_of_nat (n mod 100))"

text \<open>The map with the 17 entries \<open>n \<mapsto> n + 1000\<close> for \<open>n = 0..16\<close>.\<close>

definition map_17 :: "error + (nat, nat) Map" where
  "map_17 = assoc_all hash_mod_100 EMPTY_MAP (map (\<lambda>n. (Obj n, Obj (n + 1000))) [0..<17])"

text \<open>The map \<open>map_17\<close> after the keys \<open>ks\<close> have been removed in order.\<close>

definition map_17_without :: "nat list \<Rightarrow> error + (nat, nat) Map" where
  "map_17_without ks =
     (case map_17 of Inl e \<Rightarrow> Inl e | Inr m \<Rightarrow> dissoc_all hash_mod_100 m (map Obj ks))"

text \<open>The children an array node keeps when slot \<open>idx\<close> is cleared, in slot order.\<close>

definition remaining_children :: "('k, 'v) MapNode option list \<Rightarrow> nat \<Rightarrow> nat \<Rightarrow> ('k, 'v) slot_pair list" where
  "remaining_children arr idx n =
     concat (map (\<lambda>i. case arr ! i of Some node \<Rightarrow> if i \<noteq> idx then [SubNode node] else [] | None \<Rightarrow> [])
               [0..<n])"

section \<open>Equality\<close>

text \<open>
  The second operand of a rich comparison is any host object: \<^verbatim>\<open>None\<close>, a host sequence
  (list, tuple), a host mapping (dict), some other host object, or a value of one of
  the persistent types modelled here. A cons cell has a first element and a rest, which
  may be any object (\<^verbatim>\<open>pds_cons\<close> accepts any \<^verbatim>\<open>rest\<close>).
\<close>

datatype ('a, 'k, 'v) PyValue =
    NoneObj
  | HostSeq "'a PyObject list"
  | HostMapping "('k PyObject \<times> 'v PyObject) list"
  | HostOther 'a
  | ConsObj (first: "'a PyObject") (rest: "('a, 'k, 'v) PyValue")
  | VectorObj "'a Vector"
  | MapObj "('k, 'v) Map"

text \<open>The comparison operators of the host and the result object of \<^verbatim>\<open>tp_richcompare\<close>.\<close>

datatype cmp_op = Py_LT | Py_LE | Py_EQ | Py_NE | Py_GT | Py_GE

datatype richcmp_result = NotImplemented | PyBool bool

text \<open>\<^verbatim>\<open>PyObject_TypeCheck(other, &ConsType)\<close> and its like for the vector and map types.\<close>

fun is_Cons :: "('a, 'k, 'v) PyValue \<Rightarrow> bool" where
  "is_Cons (ConsObj f r) = True"
| "is_Cons other = False"

fun is_Vector :: "('a, 'k, 'v) PyValue \<Rightarrow> bool" where
  "is_Vector (VectorObj v) = True"
| "is_Vector other = False"

fun is_Map :: "('a, 'k, 'v) PyValue \<Rightarrow> bool" where
  "is_Map (MapObj m) = True"
| "is_Map other = False"

subsection \<open>Cons\<close>

text \<open>
  The loop of \<^verbatim>\<open>Cons_richcompare\<close> over both chains: \<open>None\<close> when two first elements
  differ; otherwise whether both chains end in \<^verbatim>\<open>None\<close> together.  The first test of the
  function, \<^verbatim>\<open>self == other\<close>, is on pointers; values have no address here, and the test is
  read as equality of the two values.
\<close>

fun cons_walk :: "('a, 'k, 'v) PyValue \<Rightarrow> ('a, 'k, 'v) PyValue \<Rightarrow> bool option" where
  "cons_walk (ConsObj f1 r1) (ConsObj f2 r2) = (if f1 = f2 then cons_walk r1 r2 else None)"
| "cons_walk a b = Some (a = NoneObj \<and> b = NoneObj)"

definition Cons_richcompare ::
  "('a, 'k, 'v) PyValue \<Rightarrow> ('a, 'k, 'v) PyValue \<Rightarrow> cmp_op \<Rightarrow> richcmp_result" where
  "Cons_richcompare self other op =
     (if op \<noteq> Py_EQ \<and> op \<noteq> Py_NE then NotImplemented
      else if self = other then PyBool (op = Py_EQ)
      else if \<not> is_Cons other then PyBool (op = Py_NE)
      else (case cons_walk self other of
              None \<Rightarrow> PyBool (op = Py_NE)
            | Some both_none \<Rightarrow> PyBool (if op = Py_EQ then both_none else \<not> both_none)))"

subsection \<open>Vector\<close>

text \<open>The element loop of \<^verbatim>\<open>Vector_richcompare\<close>, from index \<open>i\<close> on.\<close>

function vector_items_equal :: "'a Vector \<Rightarrow> 'a Vector \<Rightarrow> int \<Rightarrow> error + bool" where
  "vector_items_equal self oth i =
     (if i < cnt self then
        (case Vector_array_for self i of
           Inl e \<Rightarrow> Inl e
         | Inr arr1 \<Rightarrow>
             (case Vector_array_for oth i of
                Inl e \<Rightarrow> Inl e
              | Inr arr2 \<Rightarrow>
                  (case PyTuple_GET_ITEM arr1 (i AND MASK) of
                     Inl e \<Rightarrow> Inl e
                   | Inr x \<Rightarrow>
                       (case PyTuple_GET_ITEM arr2 (i AND MASK) of
                          Inl e \<Rightarrow> Inl e
                        | Inr y \<Rightarrow> if x = y then vector_items_equal self oth (i + 1) else Inr False))))
      else Inr True)"
  by pat_completeness auto
termination
  by (relation "measure (\<lambda>(self, oth, i). nat (cnt self - i))") auto

declare vector_items_equal.simps [simp del]

definition Vector_richcompare ::
  "'a Vector \<Rightarrow> ('a, 'k, 'v) PyValue \<Rightarrow> cmp_op \<Rightarrow> error + richcmp_result" where
  "Vector_richcompare self other op =
     (if op \<noteq> Py_EQ \<and> op \<noteq> Py_NE then Inr NotImplemented
      else if other = VectorObj self then Inr (PyBool (op = Py_EQ))
      else
        (case other of
           VectorObj oth \<Rightarrow>
             if cnt self \<noteq> cnt oth then Inr (PyBool (op = Py_NE))
             else (case vector_items_equal self oth 0 of
                     Inl e \<Rightarrow> Inl e
                   | Inr eq \<Rightarrow> Inr (PyBool (if eq then op = Py_EQ else op = Py_NE)))
         | _ \<Rightarrow> Inr (PyBool (op = Py_NE))))"

subsection \<open>HashMap\<close>

text \<open>
  The entries of a trie in the order of its iterators (\<^verbatim>\<open>ITER_MODE_ITEMS\<close>). The iterator
  of a bitmap-indexed node skips a pair \<^verbatim>\<open>(None, None)\<close> and takes a pair \<^verbatim>\<open>(None, v)\<close> with
  another \<open>v\<close> for a child node.
\<close>

primrec node_items :: "('k, 'v) MapNode \<Rightarrow> error + ('k PyObject \<times> 'v PyObject) list"
  and pair_items :: "('k, 'v) slot_pair \<Rightarrow> error + ('k PyObject \<times> 'v PyObject) list" where
  "node_items (BitmapIndexedNode bm arr) =
     (case sequence_res (map pair_items arr) of Inl e \<Rightarrow> Inl e | Inr xss \<Rightarrow> Inr (concat xss))"
| "node_items (ArrayNode count arr) =
     (case sequence_res (map (\<lambda>c. case c of None \<Rightarrow> Inr [] | Some r \<Rightarrow> r)
                           (map (map_option node_items) arr)) of
        Inl e \<Rightarrow> Inl e
      | Inr xss \<Rightarrow> Inr (concat xss))"
| "node_items (HashCollisionNode hash count arr) = Inr arr"
| "pair_items (Entry k v) =
     (if k \<noteq> Py_None then Inr [(k, v)] else if v = Py_None then Inr [] else Inl MemoryFault)"
| "pair_items (SubNode child) = node_items child"

definition Map_items :: "('k, 'v) Map \<Rightarrow> error + ('k PyObject \<times> 'v PyObject) list" where
  "Map_items self = (case m_root self of None \<Rightarrow> Inr [] | Some r \<Rightarrow> node_items r)"

text \<open>
  The entry loop of \<^verbatim>\<open>Map_richcompare\<close>: every entry of \<open>self\<close> is looked up in the other
  map and the values are compared.
\<close>

fun map_entries_equal ::
  "('k PyObject \<Rightarrow> 64 word) \<Rightarrow> ('k, 'v) Map \<Rightarrow> ('k PyObject \<times> 'v PyObject) list \<Rightarrow> error + bool" where
  "map_entries_equal PyObject_Hash oth [] = Inr True"
| "map_entries_equal PyObject_Hash oth ((key, val) # items) =
     (case (case m_root oth of
              None \<Rightarrow> Inr None
            | Some r \<Rightarrow> node_find r 0 (PyObject_Hash key) key) of
        Inl e \<Rightarrow> Inl e
      | Inr None \<Rightarrow> Inr False
      | Inr (Some other_val) \<Rightarrow>
          if val = other_val then map_entries_equal PyObject_Hash oth items else Inr False)"

definition Map_richcompare ::
  "('k PyObject \<Rightarrow> 64 word) \<Rightarrow> ('k, 'v) Map \<Rightarrow> ('a, 'k, 'v) PyValue \<Rightarrow> cmp_op \<Rightarrow> error + richcmp_result" where
  "Map_richcompare PyObject_Hash self other op =
     (if op \<noteq> Py_EQ \<and> op \<noteq> Py_NE then Inr NotImplemented
      else if other = MapObj self then Inr (PyBool (op = Py_EQ))
      else
        (case other of
           MapObj oth \<Rightarrow>
             if m_cnt self \<noteq> m_cnt oth then Inr (PyBool (op = Py_NE))
             else
               (case Map_items self of
                  Inl e \<Rightarrow> Inl e
                | Inr items \<Rightarrow>
                    (case map_entries_equal PyObject_Hash oth items of
                       Inl e \<Rightarrow> Inl e
                     | Inr eq \<Rightarrow> Inr (PyBool (if eq then op = Py_EQ else op = Py_NE))))
         | _ \<Rightarrow> Inr (PyBool (op = Py_NE))))"

section \<open>SortedVector: the left-leaning red-black tree\<close>

subsection \<open>Tree nodes\<close>

fun RBNode_size :: "'a RBNode \<Rightarrow> int" where
  "RBNode_size RB_NULL = 0"
| "RBNode_size (RBNode v k l r s c e) = s"

fun RBNode_update_size :: "'a RBNode \<Rightarrow> 'a RBNode" where
  "RBNode_update_size RB_NULL = RB_NULL"
| "RBNode_update_size (RBNode v k l r s c e) = RBNode v k l r (1 + RBNode_size l + RBNode_size r) c e"

definition RBNode_create :: "'a \<Rightarrow> 'a \<Rightarrow> color \<Rightarrow> nat option \<Rightarrow> 'a RBNode" where
  "RBNode_create val skey col edit = RBNode val skey RB_NULL RB_NULL 1 col edit"

fun RBNode_clone :: "'a RBNode \<Rightarrow> nat option \<Rightarrow> 'a RBNode" where
  "RBNode_clone RB_NULL edit = RB_NULL"
| "RBNode_clone (RBNode v k l r s c e) edit = RBNode v k l r s c edit"

fun RBNode_is_red :: "'a RBNode \<Rightarrow> bool" where
  "RBNode_is_red RB_NULL = False"
| "RBNode_is_red (RBNode v k l r s c e) = (c = RB_RED)"

fun RBNode_is_editable :: "'a RBNode \<Rightarrow> nat option \<Rightarrow> bool" where
  "RBNode_is_editable RB_NULL edit = False"
| "RBNode_is_editable (RBNode v k l r s c e) edit = (edit \<noteq> None \<and> e = edit)"

text \<open>
  \<^verbatim>\<open>RBNode_ensure_editable\<close>: an editable node is used in place, any other is cloned.
  The functions below are written on the values of the nodes, so a node edited in
  place and its clone are the same tree.
\<close>

definition RBNode_ensure_editable :: "'a RBNode \<Rightarrow> nat option \<Rightarrow> 'a RBNode" where
  "RBNode_ensure_editable node edit =
     (if RBNode_is_editable node edit then node else RBNode_clone node edit)"

text \<open>The assignments to the fields of a node that the caller owns.\<close>

fun set_left :: "'a RBNode \<Rightarrow> 'a RBNode \<Rightarrow> 'a RBNode" where
  "set_left RB_NULL new_left = RB_NULL"
| "set_left (RBNode v k l r s c e) new_left = RBNode v k new_left r s c e"

fun set_right :: "'a RBNode \<Rightarrow> 'a RBNode \<Rightarrow> 'a RBNode" where
  "set_right RB_NULL new_right = RB_NULL"
| "set_right (RBNode v k l r s c e) new_right = RBNode v k l new_right s c e"

fun set_color :: "'a RBNode \<Rightarrow> color \<Rightarrow> 'a RBNode" where
  "set_color RB_NULL col = RB_NULL"
| "set_color (RBNode v k l r s c e) col = RBNode v k l r s col e"

fun toggle :: "color \<Rightarrow> color" where
  "toggle RB_RED = RB_BLACK"
| "toggle RB_BLACK = RB_RED"

text \<open>
  \<^verbatim>\<open>SortedVector_compare_keys\<close>.  The comparison of the host,
  \<^verbatim>\<open>PyObject_RichCompareBool(a, b, op)\<close>, is a parameter: it may raise, and its \<^verbatim>\<open>Py_LT\<close> and
  \<^verbatim>\<open>Py_GT\<close> need not be a linear order (on floats with a NaN both are false).  The result
  is \<open>-1\<close>, \<open>0\<close> or \<open>1\<close>, with the sign swapped under \<open>reverse\<close>; the error return \<open>-2\<close> of the
  source is \<open>Inl\<close> here.
\<close>

definition SortedVector_compare_keys ::
  "('a \<Rightarrow> 'a \<Rightarrow> cmp_op \<Rightarrow> error + bool) \<Rightarrow> 'a \<Rightarrow> 'a \<Rightarrow> bool \<Rightarrow> error + int" where
  "SortedVector_compare_keys PyObject_RichCompareBool a b reverse =
     (case PyObject_RichCompareBool a b Py_LT of
        Inl err \<Rightarrow> Inl err
      | Inr True \<Rightarrow> Inr (if reverse then 1 else - 1)
      | Inr False \<Rightarrow>
          (case PyObject_RichCompareBool a b Py_GT of
             Inl err \<Rightarrow> Inl err
           | Inr True \<Rightarrow> Inr (if reverse then - 1 else 1)
           | Inr False \<Rightarrow> Inr 0))"

subsection \<open>Rotations and colour flips\<close>

text \<open>
  \<^verbatim>\<open>RBNode_rotate_left\<close> returns \<^verbatim>\<open>NULL\<close> when the right child is missing; the callers only
  rotate towards a red child.
\<close>

fun RBNode_rotate_left :: "'a RBNode \<Rightarrow> nat option \<Rightarrow> 'a RBNode" where
  "RBNode_rotate_left RB_NULL edit = RB_NULL"
| "RBNode_rotate_left (RBNode v k l r s c e) edit =
     (case RBNode_ensure_editable r edit of
        RB_NULL \<Rightarrow> RB_NULL
      | RBNode xv xk xl xr xs xc xe \<Rightarrow>
          (case RBNode_ensure_editable (RBNode v k l r s c e) edit of
             RB_NULL \<Rightarrow> RB_NULL
           | RBNode hv hk hl hr hs hc he \<Rightarrow>
               RBNode_update_size
                 (RBNode xv xk (RBNode_update_size (RBNode hv hk hl xl hs RB_RED he)) xr xs hc xe)))"

fun RBNode_rotate_right :: "'a RBNode \<Rightarrow> nat option \<Rightarrow> 'a RBNode" where
  "RBNode_rotate_right RB_NULL edit = RB_NULL"
| "RBNode_rotate_right (RBNode v k l r s c e) edit =
     (case RBNode_ensure_editable l edit of
        RB_NULL \<Rightarrow> RB_NULL
      | RBNode xv xk xl xr xs xc xe \<Rightarrow>
          (case RBNode_ensure_editable (RBNode v k l r s c e) edit of
             RB_NULL \<Rightarrow> RB_NULL
           | RBNode hv hk hl hr hs hc he \<Rightarrow>
               RBNode_update_size
                 (RBNode xv xk xl (RBNode_update_size (RBNode hv hk xr hr hs RB_RED he)) xs hc xe)))"

text \<open>The colour toggle of a child in \<^verbatim>\<open>RBNode_flip_colors\<close>.\<close>

fun flip_child :: "'a RBNode \<Rightarrow> nat option \<Rightarrow> 'a RBNode" where
  "flip_child RB_NULL edit = RB_NULL"
| "flip_child (RBNode v k l r s c e) edit =
     (case RBNode_ensure_editable (RBNode v k l r s c e) edit of
        RB_NULL \<Rightarrow> RB_NULL
      | RBNode cv ck cl cr cs cc ce \<Rightarrow> RBNode cv ck cl cr cs (toggle cc) ce)"

fun RBNode_flip_colors :: "'a RBNode \<Rightarrow> nat option \<Rightarrow> 'a RBNode" where
  "RBNode_flip_colors RB_NULL edit = RB_NULL"
| "RBNode_flip_colors (RBNode v k l r s c e) edit =
     (case RBNode_ensure_editable (RBNode v k l r s c e) edit of
        RB_NULL \<Rightarrow> RB_NULL
      | RBNode hv hk hl hr hs hc he \<Rightarrow>
          RBNode hv hk (flip_child hl edit) (flip_child hr edit) hs (toggle hc) he)"

text \<open>\<^verbatim>\<open>RBNode_balance\<close>: the three repairs in order, then the size.\<close>

definition RBNode_balance :: "'a RBNode \<Rightarrow> nat option \<Rightarrow> 'a RBNode" where
  "RBNode_balance h edit =
     (if h = RB_NULL then RB_NULL
      else
        (let h1 = (if RBNode_is_red (rb_right h) \<and> \<not> RBNode_is_red (rb_left h)
                   then RBNode_rotate_left h edit else h);
             h2 = (if RBNode_is_red (rb_left h1) \<and> RBNode_is_red (rb_left (rb_left h1))
                   then RBNode_rotate_right h1 edit else h1);
             h3 = (if RBNode_is_red (rb_left h2) \<and> RBNode_is_red (rb_right h2)
                   then RBNode_flip_colors h2 edit else h2)
         in RBNode_update_size h3))"

subsection \<open>Insertion\<close>

text \<open>
  \<^verbatim>\<open>RBNode_insert\<close>: a key that does not compare less than the key of the node goes to the
  right.  A comparison that raises ends the call with its error.
\<close>

fun RBNode_insert ::
  "('a \<Rightarrow> 'a \<Rightarrow> cmp_op \<Rightarrow> error + bool) \<Rightarrow> 'a RBNode \<Rightarrow> 'a \<Rightarrow> 'a \<Rightarrow> bool \<Rightarrow> nat option
     \<Rightarrow> error + 'a RBNode" where
  "RBNode_insert PyObject_RichCompareBool RB_NULL val skey reverse edit =
     Inr (RBNode_create val skey RB_RED edit)"
| "RBNode_insert PyObject_RichCompareBool (RBNode v k l r s c e) val skey reverse edit =
     (case SortedVector_compare_keys PyObject_RichCompareBool skey k reverse of
        Inl err \<Rightarrow> Inl err
      | Inr cmp \<Rightarrow>
          (let new_h = RBNode_ensure_editable (RBNode v k l r s c e) edit in
           if cmp < 0 then
             (case RBNode_insert PyObject_RichCompareBool l val skey reverse edit of
                Inl err \<Rightarrow> Inl err
              | Inr new_left \<Rightarrow> Inr (RBNode_balance (set_left new_h new_left) edit))
           else
             (case RBNode_insert PyObject_RichCompareBool r val skey reverse edit of
                Inl err \<Rightarrow> Inl err
              | Inr new_right \<Rightarrow> Inr (RBNode_balance (set_right new_h new_right) edit))))"

text \<open>
  \<^verbatim>\<open>SortedVector_get_sort_key\<close>: the element itself without key function.  A key function
  is a function on values here; a call of it that raises is outside the model.
\<close>

definition SortedVector_get_sort_key :: "'a SortedVector \<Rightarrow> 'a \<Rightarrow> 'a" where
  "SortedVector_get_sort_key self val = (case sv_key_fn self of None \<Rightarrow> val | Some f \<Rightarrow> f val)"

text \<open>
  \<^verbatim>\<open>SortedVector_conj\<close>: the root is made black (on a clone), and the result is always a
  new object.
\<close>

definition SortedVector_conj ::
  "('a \<Rightarrow> 'a \<Rightarrow> cmp_op \<Rightarrow> error + bool) \<Rightarrow> 'a SortedVector \<Rightarrow> 'a \<Rightarrow> error + 'a SortedVector" where
  "SortedVector_conj PyObject_RichCompareBool self val =
     (case RBNode_insert PyObject_RichCompareBool (sv_root self) val
             (SortedVector_get_sort_key self val) (sv_reverse self) None of
        Inl err \<Rightarrow> Inl err
      | Inr new_root \<Rightarrow>
          Inr \<lparr>sv_root = (if RBNode_is_red new_root then set_color (RBNode_clone new_root None) RB_BLACK
                          else new_root),
               sv_cnt = sv_cnt self + 1, sv_key_fn = sv_key_fn self,
               sv_reverse = sv_reverse self\<rparr>)"

subsection \<open>Removal\<close>

fun RBNode_move_red_left :: "'a RBNode \<Rightarrow> nat option \<Rightarrow> 'a RBNode" where
  "RBNode_move_red_left h0 edit =
     (let h = RBNode_flip_colors h0 edit in
      if rb_right h \<noteq> RB_NULL \<and> RBNode_is_red (rb_left (rb_right h)) then
        RBNode_flip_colors
          (RBNode_rotate_left (set_right h (RBNode_rotate_right (rb_right h) edit)) edit) edit
      else h)"

fun RBNode_move_red_right :: "'a RBNode \<Rightarrow> nat option \<Rightarrow> 'a RBNode" where
  "RBNode_move_red_right h0 edit =
     (let h = RBNode_flip_colors h0 edit in
      if rb_left h \<noteq> RB_NULL \<and> RBNode_is_red (rb_left (rb_left h)) then
        RBNode_flip_colors (RBNode_rotate_right h edit) edit
      else h)"

text \<open>\<^verbatim>\<open>RBNode_min\<close>: the loop \<^verbatim>\<open>while (node->left) node = node->left\<close> on a node that exists.\<close>

fun RBNode_min :: "'a RBNode \<Rightarrow> 'a RBNode" where
  "RBNode_min RB_NULL = RB_NULL"
| "RBNode_min (RBNode v k l r s c e) = (if l = RB_NULL then RBNode v k l r s c e else RBNode_min l)"

text \<open>The number of nodes of a tree: the measure of the two recursions below.\<close>

fun node_count :: "'a RBNode \<Rightarrow> nat" where
  "node_count RB_NULL = 0"
| "node_count (RBNode v k l r s c e) = Suc (node_count l + node_count r)"

text \<open>
  \<^verbatim>\<open>RBNode_delete_min\<close>.  The recursion is on the left child of the node after
  \<^verbatim>\<open>RBNode_move_red_left\<close>, so it is not structural.  A node without left child is
  dropped, whatever its right child.
\<close>

function RBNode_delete_min :: "'a RBNode \<Rightarrow> nat option \<Rightarrow> 'a RBNode" where
  "RBNode_delete_min h edit =
     (case RBNode_ensure_editable h edit of
        RB_NULL \<Rightarrow> RB_NULL
      | RBNode v k l r s c e \<Rightarrow>
          if l = RB_NULL then RB_NULL
          else
            (case (if \<not> RBNode_is_red l \<and> \<not> RBNode_is_red (rb_left l)
                   then RBNode_move_red_left (RBNode v k l r s c e) edit
                   else RBNode v k l r s c e) of
               RB_NULL \<Rightarrow> RB_NULL
             | RBNode v1 k1 l1 r1 s1 c1 e1 \<Rightarrow>
                 RBNode_balance (RBNode v1 k1 (RBNode_delete_min l1 edit) r1 s1 c1 e1) edit))"
  by pat_completeness auto

termination RBNode_delete_min
proof -
  have ee: "node_count (RBNode_ensure_editable t e) = node_count t" for t :: "'a RBNode" and e
    by (cases t) (auto simp: RBNode_ensure_editable_def)
  have rl: "node_count (RBNode_rotate_left t e) \<le> node_count t" for t :: "'a RBNode" and e
    by (cases t; cases "rb_right t") (auto simp: RBNode_ensure_editable_def)
  have rr: "node_count (RBNode_rotate_right t e) \<le> node_count t" for t :: "'a RBNode" and e
    by (cases t; cases "rb_left t") (auto simp: RBNode_ensure_editable_def)
  have fc: "node_count (flip_child t e) = node_count t" for t :: "'a RBNode" and e
    by (cases t) (auto simp: RBNode_ensure_editable_def)
  have fl: "node_count (RBNode_flip_colors t e) = node_count t" for t :: "'a RBNode" and e
    by (cases t) (auto simp: RBNode_ensure_editable_def fc)
  have sr: "node_count (set_right t r) \<le> node_count t"
    if "node_count r \<le> node_count (rb_right t)" for t r :: "'a RBNode"
    using that by (cases t) auto
  have mrl: "node_count (RBNode_move_red_left t e) \<le> node_count t" for t :: "'a RBNode" and e
    using order_trans [OF rl [of "set_right (RBNode_flip_colors t e)
            (RBNode_rotate_right (rb_right (RBNode_flip_colors t e)) e)" e]
          sr [OF rr [of "rb_right (RBNode_flip_colors t e)" e]]]
    by (simp add: fl Let_def)
  show ?thesis
    apply (relation "measure (\<lambda>(h, edit). node_count h)")
    subgoal by simp
    subgoal for h edit v k l r s c e v1 k1 l1 r1 s1 c1 e1
      using mrl [of "RBNode v k l r s c e" edit] ee [of h edit]
      by (auto split: if_splits)
    done
qed

text \<open>
  \<^verbatim>\<open>RBNode_delete\<close> returns the new subtree and the flag \<^verbatim>\<open>*deleted\<close>.  A comparison that
  raises ends the call with its error; where the source goes on with the exception
  pending (the error return of \<^verbatim>\<open>SortedVector_compare_keys\<close> read as ``keys differ''),
  the interpreter refuses the result of the call, so that is an error here too.  The
  source calls \<^verbatim>\<open>RBNode_min\<close> on the right child without a test; on a missing child that is
  a read through \<^verbatim>\<open>NULL\<close>.
\<close>

function RBNode_delete ::
  "('a \<Rightarrow> 'a \<Rightarrow> cmp_op \<Rightarrow> error + bool) \<Rightarrow> 'a RBNode \<Rightarrow> 'a \<Rightarrow> 'a \<Rightarrow> bool \<Rightarrow> nat option
     \<Rightarrow> error + ('a RBNode \<times> bool)" where
  "RBNode_delete PyObject_RichCompareBool h skey val reverse edit =
     (case h of
        RB_NULL \<Rightarrow> Inr (RB_NULL, False)
      | RBNode hv hk hl hr hs hc he \<Rightarrow>
          (case SortedVector_compare_keys PyObject_RichCompareBool skey hk reverse of
             Inl err \<Rightarrow> Inl err
           | Inr cmp \<Rightarrow>
          (case RBNode_ensure_editable h edit of
             RB_NULL \<Rightarrow> Inr (RB_NULL, False)
           | RBNode v k l r s c e \<Rightarrow>
               if cmp < 0 then
                 (case (if l \<noteq> RB_NULL \<and> \<not> RBNode_is_red l \<and> \<not> RBNode_is_red (rb_left l)
                        then RBNode_move_red_left (RBNode v k l r s c e) edit
                        else RBNode v k l r s c e) of
                    RB_NULL \<Rightarrow> Inr (RB_NULL, False)
                  | RBNode v1 k1 l1 r1 s1 c1 e1 \<Rightarrow>
                      (case RBNode_delete PyObject_RichCompareBool l1 skey val reverse edit of
                         Inl err \<Rightarrow> Inl err
                       | Inr (new_left, deleted) \<Rightarrow>
                           Inr (RBNode_balance (RBNode v1 k1 new_left r1 s1 c1 e1) edit, deleted)))
               else
                 (case (if RBNode_is_red l then RBNode_rotate_right (RBNode v k l r s c e) edit
                        else RBNode v k l r s c e) of
                    RB_NULL \<Rightarrow> Inr (RB_NULL, False)
                  | RBNode v1 k1 l1 r1 s1 c1 e1 \<Rightarrow>
                      (case PyObject_RichCompareBool val v1 Py_EQ of
                         Inl err \<Rightarrow> Inl err
                       | Inr eq \<Rightarrow>
                      (case SortedVector_compare_keys PyObject_RichCompareBool skey k1 reverse of
                         Inl err \<Rightarrow> Inl err
                       | Inr key_cmp \<Rightarrow>
                      if key_cmp = 0 \<and> eq \<and> r1 = RB_NULL
                      then Inr (RB_NULL, True)
                      else
                        (case (if r1 \<noteq> RB_NULL \<and> \<not> RBNode_is_red r1 \<and> \<not> RBNode_is_red (rb_left r1)
                               then RBNode_move_red_right (RBNode v1 k1 l1 r1 s1 c1 e1) edit
                               else RBNode v1 k1 l1 r1 s1 c1 e1) of
                           RB_NULL \<Rightarrow> Inr (RB_NULL, False)
                         | RBNode v2 k2 l2 r2 s2 c2 e2 \<Rightarrow>
                             (case PyObject_RichCompareBool val v2 Py_EQ of
                                Inl err \<Rightarrow> Inl err
                              | Inr eq2 \<Rightarrow>
                             (case SortedVector_compare_keys PyObject_RichCompareBool skey k2 reverse of
                                Inl err \<Rightarrow> Inl err
                              | Inr key_cmp2 \<Rightarrow>
                             if key_cmp2 = 0 \<and> eq2 then
                               (case RBNode_min r2 of
                                  RB_NULL \<Rightarrow> Inl MemoryFault
                                | RBNode mv mk ml mr ms mc me \<Rightarrow>
                                    Inr (RBNode_balance
                                           (RBNode mv mk l2 (RBNode_delete_min r2 edit) s2 c2 e2) edit,
                                         True))
                             else
                               (case RBNode_delete PyObject_RichCompareBool r2 skey val reverse edit of
                                  Inl err \<Rightarrow> Inl err
                                | Inr (new_right, deleted) \<Rightarrow>
                                    Inr (RBNode_balance (RBNode v2 k2 l2 new_right s2 c2 e2) edit,
                                         deleted)))))))))))"
  by pat_completeness auto

termination RBNode_delete
proof -
  have ee: "node_count (RBNode_ensure_editable t e) = node_count t" for t :: "'a RBNode" and e
    by (cases t) (auto simp: RBNode_ensure_editable_def)
  have rl: "node_count (RBNode_rotate_left t e) \<le> node_count t" for t :: "'a RBNode" and e
    by (cases t; cases "rb_right t") (auto simp: RBNode_ensure_editable_def)
  have rr: "node_count (RBNode_rotate_right t e) \<le> node_count t" for t :: "'a RBNode" and e
    by (cases t; cases "rb_left t") (auto simp: RBNode_ensure_editable_def)
  have fc: "node_count (flip_child t e) = node_count t" for t :: "'a RBNode" and e
    by (cases t) (auto simp: RBNode_ensure_editable_def)
  have fl: "node_count (RBNode_flip_colors t e) = node_count t" for t :: "'a RBNode" and e
    by (cases t) (auto simp: RBNode_ensure_editable_def fc)
  have sr: "node_count (set_right t r) \<le> node_count t"
    if "node_count r \<le> node_count (rb_right t)" for t r :: "'a RBNode"
    using that by (cases t) auto
  have mrl: "node_count (RBNode_move_red_left t e) \<le> node_count t" for t :: "'a RBNode" and e
    using order_trans [OF rl [of "set_right (RBNode_flip_colors t e)
            (RBNode_rotate_right (rb_right (RBNode_flip_colors t e)) e)" e]
          sr [OF rr [of "rb_right (RBNode_flip_colors t e)" e]]]
    by (simp add: fl Let_def)
  have mrr: "node_count (RBNode_move_red_right t e) \<le> node_count t" for t :: "'a RBNode" and e
    using rr [of "RBNode_flip_colors t e" e] by (simp add: fl Let_def)
  have left_step: "node_count l1 < node_count h"
    if "RBNode_ensure_editable h edit = RBNode v k l r s c e"
      and "(if b then RBNode_move_red_left (RBNode v k l r s c e) edit else RBNode v k l r s c e) =
             RBNode v1 k1 l1 r1 s1 c1 e1"
    for h :: "'a RBNode" and edit v k l r s c e b v1 k1 l1 r1 s1 c1 e1
    using that mrl [of "RBNode v k l r s c e" edit] ee [of h edit]
    by (auto split: if_splits)
  have right_step: "node_count r2 < node_count h"
    if "RBNode_ensure_editable h edit = RBNode v k l r s c e"
      and "(if b then RBNode_rotate_right (RBNode v k l r s c e) edit else RBNode v k l r s c e) =
             RBNode v1 k1 l1 r1 s1 c1 e1"
      and "(if b' then RBNode_move_red_right (RBNode v1 k1 l1 r1 s1 c1 e1) edit
            else RBNode v1 k1 l1 r1 s1 c1 e1) = RBNode v2 k2 l2 r2 s2 c2 e2"
    for h :: "'a RBNode" and edit v k l r s c e b v1 k1 l1 r1 s1 c1 e1 b' v2 k2 l2 r2 s2 c2 e2
    using that rr [of "RBNode v k l r s c e" edit] ee [of h edit]
      mrr [of "RBNode v1 k1 l1 r1 s1 c1 e1" edit]
    by (auto split: if_splits)
  show ?thesis
    apply (relation "measure (\<lambda>(cmp, h, skey, val, reverse, edit). node_count h)")
    subgoal by simp
    subgoal premises p by (simp, rule left_step, (rule p)+)
    subgoal premises p by (simp, rule right_step, (rule p)+)
    done
qed

declare RBNode_delete_min.simps [simp del] RBNode_delete.simps [simp del]

text \<open>
  \<^verbatim>\<open>SortedVector_disj\<close>: the receiver itself when it is empty or nothing was deleted,
  otherwise a new object over the new root made black.
\<close>

definition SortedVector_disj ::
  "('a \<Rightarrow> 'a \<Rightarrow> cmp_op \<Rightarrow> error + bool) \<Rightarrow> 'a SortedVector \<Rightarrow> 'a \<Rightarrow> error + 'a SortedVector ref" where
  "SortedVector_disj PyObject_RichCompareBool self val =
     (if sv_cnt self = 0 then Inr Self
      else
        (case RBNode_delete PyObject_RichCompareBool (sv_root self)
                (SortedVector_get_sort_key self val) val (sv_reverse self) None of
           Inl err \<Rightarrow> Inl err
         | Inr (new_root, deleted) \<Rightarrow>
             if \<not> deleted then Inr Self
             else Inr (Fresh \<lparr>sv_root = (if RBNode_is_red new_root then set_color new_root RB_BLACK
                                           else new_root),
                               sv_cnt = sv_cnt self - 1, sv_key_fn = sv_key_fn self,
                               sv_reverse = sv_reverse self\<rparr>)))"

subsection \<open>The invariants of the tree\<close>

fun inorder_keys :: "'a RBNode \<Rightarrow> 'a list" where
  "inorder_keys RB_NULL = []"
| "inorder_keys (RBNode v k l r s c e) = inorder_keys l @ k # inorder_keys r"

text \<open>
  Search-tree order by sort key under the direction of the vector, with every duplicate
  of a key in the right subtree of its node: a key of the left subtree compares less than
  the key of the node, a key of the right subtree does not.
\<close>

fun bst_order_duplicates_right ::
  "('a \<Rightarrow> 'a \<Rightarrow> cmp_op \<Rightarrow> error + bool) \<Rightarrow> bool \<Rightarrow> 'a RBNode \<Rightarrow> bool" where
  "bst_order_duplicates_right PyObject_RichCompareBool reverse RB_NULL = True"
| "bst_order_duplicates_right PyObject_RichCompareBool reverse (RBNode v k l r s c e) =
     (list_all (\<lambda>x. case SortedVector_compare_keys PyObject_RichCompareBool x k reverse of
                       Inl err \<Rightarrow> False | Inr cmp \<Rightarrow> cmp < 0) (inorder_keys l) \<and>
      list_all (\<lambda>x. case SortedVector_compare_keys PyObject_RichCompareBool x k reverse of
                       Inl err \<Rightarrow> False | Inr cmp \<Rightarrow> cmp \<ge> 0) (inorder_keys r) \<and>
      bst_order_duplicates_right PyObject_RichCompareBool reverse l \<and>
      bst_order_duplicates_right PyObject_RichCompareBool reverse r)"

fun left_leaning :: "'a RBNode \<Rightarrow> bool" where
  "left_leaning RB_NULL = True"
| "left_leaning (RBNode v k l r s c e) = (\<not> RBNode_is_red r \<and> left_leaning l \<and> left_leaning r)"

fun no_red_red :: "'a RBNode \<Rightarrow> bool" where
  "no_red_red RB_NULL = True"
| "no_red_red (RBNode v k l r s c e) =
     ((if c = RB_RED then \<not> RBNode_is_red l \<and> \<not> RBNode_is_red r else True) \<and>
      no_red_red l \<and> no_red_red r)"

text \<open>The number of black nodes on the leftmost path, and that every path has as many.\<close>

fun black_depth :: "'a RBNode \<Rightarrow> nat" where
  "black_depth RB_NULL = 0"
| "black_depth (RBNode v k l r s c e) = black_depth l + (if c = RB_BLACK then 1 else 0)"

fun equal_black_depth :: "'a RBNode \<Rightarrow> bool" where
  "equal_black_depth RB_NULL = True"
| "equal_black_depth (RBNode v k l r s c e) =
     (black_depth l = black_depth r \<and> equal_black_depth l \<and> equal_black_depth r)"

fun sizes_ok :: "'a RBNode \<Rightarrow> bool" where
  "sizes_ok RB_NULL = True"
| "sizes_ok (RBNode v k l r s c e) =
     (s = 1 + RBNode_size l + RBNode_size r \<and> sizes_ok l \<and> sizes_ok r)"

text \<open>
  The invariants of the claim that do not depend on the order of the keys: no red right
  child, no red node with a red child, equal black depth, the size of every node, and the
  count of the vector.
\<close>

definition SortedVector_shape_invariants :: "'a SortedVector \<Rightarrow> bool" where
  "SortedVector_shape_invariants self =
     (left_leaning (sv_root self) \<and> no_red_red (sv_root self) \<and>
      equal_black_depth (sv_root self) \<and> sizes_ok (sv_root self) \<and>
      sv_cnt self = int (node_count (sv_root self)))"

subsection \<open>The factory\<close>

text \<open>\<^verbatim>\<open>SortedVector_conj\<close> of the items of a list in turn, stopping at the first error.\<close>

fun SortedVector_conj_all ::
  "('a \<Rightarrow> 'a \<Rightarrow> cmp_op \<Rightarrow> error + bool) \<Rightarrow> 'a SortedVector \<Rightarrow> 'a list \<Rightarrow> error + 'a SortedVector" where
  "SortedVector_conj_all PyObject_RichCompareBool sv [] = Inr sv"
| "SortedVector_conj_all PyObject_RichCompareBool sv (item # items) =
     (case SortedVector_conj PyObject_RichCompareBool sv item of
        Inl err \<Rightarrow> Inl err
      | Inr new_sv \<Rightarrow> SortedVector_conj_all PyObject_RichCompareBool new_sv items)"

text \<open>
  \<^verbatim>\<open>sorted_vec(iterable, key=, reverse=)\<close> allocates a SortedVector with \<^verbatim>\<open>SortedVector_new\<close>
  on every call and replaces it by the result of \<^verbatim>\<open>SortedVector_conj\<close> for each item.
\<close>

definition pds_sorted_vec ::
  "('a \<Rightarrow> 'a \<Rightarrow> cmp_op \<Rightarrow> error + bool) \<Rightarrow> 'a list option \<Rightarrow> ('a \<Rightarrow> 'a) option \<Rightarrow> bool
     \<Rightarrow> error + 'a SortedVector ref" where
  "pds_sorted_vec PyObject_RichCompareBool iterable key_fn reverse =
     (case SortedVector_conj_all PyObject_RichCompareBool
             \<lparr>sv_root = RB_NULL, sv_cnt = 0, sv_key_fn = key_fn, sv_reverse = reverse\<rparr>
             (case iterable of None \<Rightarrow> [] | Some items \<Rightarrow> items) of
        Inl err \<Rightarrow> Inl err
      | Inr sv \<Rightarrow> Inr (Fresh sv))"

subsection \<open>A vector with a duplicate key\<close>

text \<open>The comparison of the host on integers: it never raises.\<close>

definition int_RichCompareBool :: "int \<Rightarrow> int \<Rightarrow> cmp_op \<Rightarrow> error + bool" where
  "int_RichCompareBool a b op =
     Inr (case op of Py_LT \<Rightarrow> a < b | Py_LE \<Rightarrow> a \<le> b | Py_EQ \<Rightarrow> a = b
          | Py_NE \<Rightarrow> a \<noteq> b | Py_GT \<Rightarrow> a > b | Py_GE \<Rightarrow> a \<ge> b)"

text \<open>
  The vector \<^verbatim>\<open>sorted_vec([4, 5, 4, 2])\<close>: the root is the second 4, its left child the first 4
  with the red left child 2, its right child 5.
\<close>

definition sv_4_5_4_2 :: "int SortedVector" where
  "sv_4_5_4_2 =
     \<lparr>sv_root =
        RBNode 4 4
          (RBNode 4 4 (RBNode 2 2 RB_NULL RB_NULL 1 RB_RED None) RB_NULL 2 RB_BLACK None)
          (RBNode 5 5 RB_NULL RB_NULL 1 RB_BLACK None)
          4 RB_BLACK None,
      sv_cnt = 4, sv_key_fn = None, sv_reverse = False\<rparr>"

text \<open>What \<^verbatim>\<open>disj(4)\<close> returns on it: count 3 over a tree of the two nodes 2 and 4.\<close>

definition sv_4_5_4_2_disj_4 :: "int SortedVector" where
  "sv_4_5_4_2_disj_4 =
     \<lparr>sv_root =
        RBNode 4 4 (RBNode 2 2 RB_NULL RB_NULL 1 RB_BLACK None) RB_NULL 2 RB_BLACK None,
      sv_cnt = 3, sv_key_fn = None, sv_reverse = False\<rparr>"

section \<open>Factories and the canonical empty instances\<close>

text \<open>
  The module functions \<^verbatim>\<open>vec\<close>, \<^verbatim>\<open>hash_map\<close> and \<^verbatim>\<open>hash_set\<close>, up to the object they return.
  Called without argument each returns the module-level empty singleton.  Otherwise the
  elements are added to a transient and the result is the new object allocated by
  \<^verbatim>\<open>TransientVector_persistent\<close>, \<^verbatim>\<open>TransientMap_persistent\<close> or \<^verbatim>\<open>TransientSet_persistent\<close>;
  what the transient yields (an error or the contents of that object) is the parameter
  \<open>built\<close>.
\<close>

definition pds_vec :: "'b list \<Rightarrow> error + 'a Vector \<Rightarrow> error + 'a Vector ref" where
  "pds_vec args built =
     (if length args = 0 then Inr Singleton
      else (case built of Inl e \<Rightarrow> Inl e | Inr v \<Rightarrow> Inr (Fresh v)))"

definition pds_hash_map :: "'b list \<Rightarrow> error + ('k, 'v) Map \<Rightarrow> error + ('k, 'v) Map ref" where
  "pds_hash_map args built =
     (if length args mod 2 \<noteq> 0 then Inl ValueError
      else if length args = 0 then Inr Singleton
      else (case built of Inl e \<Rightarrow> Inl e | Inr m \<Rightarrow> Inr (Fresh m)))"

definition pds_set :: "'b option \<Rightarrow> error + 'k Set \<Rightarrow> error + 'k Set ref" where
  "pds_set iterable built =
     (case iterable of
        None \<Rightarrow> Inr Singleton
      | Some it \<Rightarrow> (case built of Inl e \<Rightarrow> Inl e | Inr s \<Rightarrow> Inr (Fresh s)))"

text \<open>
  Whether a returned pointer is the canonical empty instance of its type.  The receiver
  of a call can itself be that instance (\<^verbatim>\<open>hash_map().dissoc(k)\<close> returns \<^verbatim>\<open>EMPTY_MAP\<close>, as the
  receiver), and the contents of the receiver do not tell: an empty map allocated by
  \<^verbatim>\<open>Map_dissoc\<close> has the contents of \<^verbatim>\<open>EMPTY_MAP\<close>.  So that the receiver is the canonical
  instance is the first argument.
\<close>

fun is_canonical_instance :: "bool \<Rightarrow> 'a ref \<Rightarrow> bool" where
  "is_canonical_instance receiver_is_canonical Self = receiver_is_canonical"
| "is_canonical_instance receiver_is_canonical Singleton = True"
| "is_canonical_instance receiver_is_canonical (Fresh x) = False"

definition returns_canonical :: "bool \<Rightarrow> error + 'a ref \<Rightarrow> bool" where
  "returns_canonical receiver_is_canonical res =
     (case res of Inl e \<Rightarrow> False | Inr r \<Rightarrow> is_canonical_instance receiver_is_canonical r)"

section \<open>Primitive vectors\<close>

subsection \<open>Nodes and the vector object\<close>

text \<open>
  \<^verbatim>\<open>struct DoubleVectorNode { union { double values[WIDTH]; DoubleVectorNode *children[WIDTH]; }
  data; int valid_mask; PyObject *transient_id; }\<close>.  A slot of the union is a value (in a
  leaf), a child (in an internal node), or still the zero written by
  \<^verbatim>\<open>DoubleVectorNode_create\<close>.  The element type is a parameter: \<^verbatim>\<open>IntVectorNode\<close> and
  \<^verbatim>\<open>IntVector\<close> are the same declarations with \<^verbatim>\<open>int64_t\<close> for \<^verbatim>\<open>double\<close>.
\<close>

datatype 'e DoubleVectorNode =
  DoubleVectorNode (dv_data: "'e dv_slot list") (valid_mask: "32 word") (dvn_transient_id: "nat option")
and 'e dv_slot = DV_Zero | DV_Value 'e | DV_Child "'e DoubleVectorNode"

definition DoubleVectorNode_create :: "nat option \<Rightarrow> 'e DoubleVectorNode" where
  "DoubleVectorNode_create tid = DoubleVectorNode (replicate WIDTH DV_Zero) 0 tid"

definition DoubleVectorNode_clone :: "'e DoubleVectorNode \<Rightarrow> nat option \<Rightarrow> 'e DoubleVectorNode" where
  "DoubleVectorNode_clone self tid = DoubleVectorNode (dv_data self) (valid_mask self) tid"

definition DoubleVectorNode_is_editable :: "'e DoubleVectorNode \<Rightarrow> nat option \<Rightarrow> bool" where
  "DoubleVectorNode_is_editable self tid \<longleftrightarrow> tid \<noteq> None \<and> dvn_transient_id self = tid"

definition EMPTY_DOUBLE_NODE :: "'e DoubleVectorNode" where
  "EMPTY_DOUBLE_NODE = DoubleVectorNode_create None"

text \<open>
  \<^verbatim>\<open>struct DoubleVector { Py_ssize_t cnt; int shift; DoubleVectorNode *root; double *tail;
  Py_ssize_t tail_len; ...; PyObject *transient_id; }\<close>.  The tail is the list of its
  \<^verbatim>\<open>tail_len\<close> values; the capacity, the memoised hash and the buffer cache are left out.
\<close>

record 'e DoubleVector =
  dv_cnt :: int
  dv_shift :: nat
  dv_root :: "'e DoubleVectorNode"
  dv_tail :: "'e list"
  dv_transient_id :: "nat option"

definition DoubleVector_create ::
  "int \<Rightarrow> nat \<Rightarrow> 'e DoubleVectorNode \<Rightarrow> 'e list \<Rightarrow> nat option \<Rightarrow> 'e DoubleVector" where
  "DoubleVector_create c s r t tid =
     \<lparr>dv_cnt = c, dv_shift = s, dv_root = r, dv_tail = t, dv_transient_id = tid\<rparr>"

text \<open>
  Module initialisation:
  \<^verbatim>\<open>EMPTY_DOUBLE_VECTOR = DoubleVector_create(0, BITS, EMPTY_DOUBLE_NODE, NULL, 0, NULL)\<close>.
\<close>

definition EMPTY_DOUBLE_VECTOR :: "'e DoubleVector" where
  "EMPTY_DOUBLE_VECTOR = DoubleVector_create 0 BITS EMPTY_DOUBLE_NODE [] None"

definition DoubleVector_tail_off :: "'e DoubleVector \<Rightarrow> int" where
  "DoubleVector_tail_off self =
     (if dv_cnt self < int WIDTH then 0 else push_bit BITS (drop_bit BITS (dv_cnt self - 1)))"

subsection \<open>Append\<close>

function DoubleVector_new_path ::
  "nat \<Rightarrow> 'e DoubleVectorNode \<Rightarrow> nat option \<Rightarrow> 'e DoubleVectorNode" where
  "DoubleVector_new_path level node tid =
     (if level = 0 then node
      else DoubleVectorNode
             ((replicate WIDTH DV_Zero)[0 := DV_Child (DoubleVector_new_path (level - BITS) node tid)])
             1 tid)"
  by pat_completeness auto
termination
  by (relation "measure (\<lambda>(level, node, tid). level)") (auto simp: BITS_def)

declare DoubleVector_new_path.simps [simp del]

text \<open>
  \<^verbatim>\<open>DoubleVector_push_tail\<close>.  The child of the parent is followed when the slot holds a
  pointer and its bit of \<^verbatim>\<open>valid_mask\<close> is set; a value in a slot whose bit is set, followed
  as a pointer, is a fault.  In C a \<open>level\<close> below \<open>BITS\<close> would recurse without bound.
\<close>

function DoubleVector_push_tail ::
  "'e DoubleVector \<Rightarrow> nat \<Rightarrow> 'e DoubleVectorNode \<Rightarrow> 'e DoubleVectorNode \<Rightarrow> nat option
     \<Rightarrow> error + 'e DoubleVectorNode" where
  "DoubleVector_push_tail self level parent tail_node tid =
     (let subidx = nat (drop_bit level (dv_cnt self - 1) AND MASK);
          ret = (if DoubleVectorNode_is_editable parent tid then parent
                 else DoubleVectorNode_clone parent tid);
          store = (\<lambda>node_to_insert.
                     DoubleVectorNode ((dv_data ret)[subidx := DV_Child node_to_insert])
                       (valid_mask ret OR push_bit subidx 1) (dvn_transient_id ret))
      in if level = BITS then Inr (store tail_node)
         else if level < BITS then Inl MemoryFault
         else (case dv_data parent ! subidx of
                 DV_Child c \<Rightarrow>
                   if valid_mask parent AND push_bit subidx 1 \<noteq> 0 then
                     (case DoubleVector_push_tail self (level - BITS) c tail_node tid of
                        Inl e \<Rightarrow> Inl e
                      | Inr n \<Rightarrow> Inr (store n))
                   else Inr (store (DoubleVector_new_path (level - BITS) tail_node tid))
               | DV_Zero \<Rightarrow> Inr (store (DoubleVector_new_path (level - BITS) tail_node tid))
               | DV_Value x \<Rightarrow>
                   if valid_mask parent AND push_bit subidx 1 \<noteq> 0 then Inl MemoryFault
                   else Inr (store (DoubleVector_new_path (level - BITS) tail_node tid))))"
  by pat_completeness auto
termination
  by (relation "measure (\<lambda>(self, level, parent, tail_node, tid). level)") (auto simp: BITS_def)

declare DoubleVector_push_tail.simps [simp del]

text \<open>The leaf built from a full tail: the first \<open>WIDTH\<close> values, with their bits of the mask.\<close>

definition dv_tail_to_node :: "'e list \<Rightarrow> nat option \<Rightarrow> 'e DoubleVectorNode" where
  "dv_tail_to_node t tid =
     DoubleVectorNode (map DV_Value (take WIDTH t) @ replicate (WIDTH - length (take WIDTH t)) DV_Zero)
       (mask (length (take WIDTH t))) tid"

text \<open>
  \<^verbatim>\<open>DoubleVector_conj\<close>.  The conversion of the host, \<^verbatim>\<open>PyFloat_AsDouble\<close>, is a parameter: it
  returns the \<^verbatim>\<open>double\<close> or raises.  The value it returns is stored; the function has no
  other test of its argument.
\<close>

definition DoubleVector_conj ::
  "('o \<Rightarrow> error + 'e) \<Rightarrow> 'e DoubleVector \<Rightarrow> 'o \<Rightarrow> error + 'e DoubleVector" where
  "DoubleVector_conj PyFloat_AsDouble self val =
     (case PyFloat_AsDouble val of
        Inl err \<Rightarrow> Inl err
      | Inr dval \<Rightarrow>
          (let tid = dv_transient_id self in
           if dv_cnt self - DoubleVector_tail_off self < int WIDTH then
             Inr (DoubleVector_create (dv_cnt self + 1) (dv_shift self) (dv_root self)
                    (dv_tail self @ [dval]) tid)
           else
             (let tail_node = dv_tail_to_node (dv_tail self) tid in
              if drop_bit BITS (dv_cnt self) > (2 :: int) ^ dv_shift self then
                Inr (DoubleVector_create (dv_cnt self + 1) (dv_shift self + BITS)
                       (DoubleVectorNode
                          ((replicate WIDTH DV_Zero)
                             [0 := DV_Child (dv_root self),
                              1 := DV_Child (DoubleVector_new_path (dv_shift self) tail_node tid)])
                          3 tid)
                       [dval] tid)
              else
                (case DoubleVector_push_tail self (dv_shift self) (dv_root self) tail_node tid of
                   Inl e \<Rightarrow> Inl e
                 | Inr new_root \<Rightarrow>
                     Inr (DoubleVector_create (dv_cnt self + 1) (dv_shift self) new_root [dval] tid)))))"

text \<open>
  \<^verbatim>\<open>IntVector_conj\<close> is the text of \<^verbatim>\<open>DoubleVector_conj\<close> with \<^verbatim>\<open>int64_t\<close> for \<^verbatim>\<open>double\<close> and the
  conversion \<^verbatim>\<open>PyLong_AsLongLong\<close> for \<^verbatim>\<open>PyFloat_AsDouble\<close>.
\<close>

definition IntVector_conj ::
  "('o \<Rightarrow> error + 'e) \<Rightarrow> 'e DoubleVector \<Rightarrow> 'o \<Rightarrow> error + 'e DoubleVector" where
  "IntVector_conj PyLong_AsLongLong self val = DoubleVector_conj PyLong_AsLongLong self val"

subsection \<open>The factories\<close>

text \<open>
  The loop of \<^verbatim>\<open>pds_vec_f64\<close> and \<^verbatim>\<open>pds_vec_i64\<close> over the arguments: each is converted, an
  error of the conversion is cleared and replaced by \<^verbatim>\<open>TypeError\<close>, and the converted value
  is appended to the transient.  The append to the transient
  (\<^verbatim>\<open>TransientDoubleVector_conj_mut_raw\<close>) is the parameter \<open>conj_mut_raw\<close>.
\<close>

fun unbox_all ::
  "('o \<Rightarrow> error + 'e) \<Rightarrow> ('t \<Rightarrow> 'e \<Rightarrow> error + 't) \<Rightarrow> 't \<Rightarrow> 'o list \<Rightarrow> error + 't" where
  "unbox_all convert conj_mut_raw t [] = Inr t"
| "unbox_all convert conj_mut_raw t (item # items) =
     (case convert item of
        Inl err \<Rightarrow> Inl TypeError
      | Inr v \<Rightarrow>
          (case conj_mut_raw t v of
             Inl err \<Rightarrow> Inl err
           | Inr t' \<Rightarrow> unbox_all convert conj_mut_raw t' items))"

text \<open>
  \<^verbatim>\<open>pds_vec_f64\<close>: the empty singleton without arguments; else the new object of
  \<^verbatim>\<open>TransientDoubleVector_persistent\<close> (the parameter \<open>persistent\<close>) on the transient of the
  empty vector (the parameter \<open>t0\<close>) after the loop.  \<^verbatim>\<open>pds_vec_i64\<close> is the same text with
  \<^verbatim>\<open>PyLong_AsLongLong\<close>.
\<close>

definition pds_vec_f64 ::
  "('o \<Rightarrow> error + 'e) \<Rightarrow> ('t \<Rightarrow> 'e \<Rightarrow> error + 't) \<Rightarrow> ('t \<Rightarrow> 'e DoubleVector) \<Rightarrow> 't \<Rightarrow> 'o list
     \<Rightarrow> error + 'e DoubleVector ref" where
  "pds_vec_f64 PyFloat_AsDouble conj_mut_raw persistent t0 args =
     (if length args = 0 then Inr Singleton
      else (case unbox_all PyFloat_AsDouble conj_mut_raw t0 args of
              Inl err \<Rightarrow> Inl err
            | Inr t \<Rightarrow> Inr (Fresh (persistent t))))"

definition pds_vec_i64 ::
  "('o \<Rightarrow> error + 'e) \<Rightarrow> ('t \<Rightarrow> 'e \<Rightarrow> error + 't) \<Rightarrow> ('t \<Rightarrow> 'e DoubleVector) \<Rightarrow> 't \<Rightarrow> 'o list
     \<Rightarrow> error + 'e DoubleVector ref" where
  "pds_vec_i64 PyLong_AsLongLong conj_mut_raw persistent t0 args =
     pds_vec_f64 PyLong_AsLongLong conj_mut_raw persistent t0 args"

subsection \<open>The conversions of the host on integers\<close>

text \<open>
  Arguments for the scenarios: a Python \<^verbatim>\<open>int\<close> or a string.  The conversions are those of
  the interpreter, which is not part of the repository.  \<^verbatim>\<open>PyLong_AsLongLong\<close> returns an
  \<^verbatim>\<open>int\<close> that fits 64 bits, raises \<^verbatim>\<open>OverflowError\<close> on any other \<^verbatim>\<open>int\<close> and \<^verbatim>\<open>TypeError\<close> on a
  string.  \<^verbatim>\<open>PyFloat_AsDouble\<close> returns for an \<^verbatim>\<open>int\<close> the nearest \<^verbatim>\<open>double\<close> (53 significant bits,
  ties to the even neighbour), raises \<^verbatim>\<open>OverflowError\<close> beyond the largest \<^verbatim>\<open>double\<close>, and
  \<^verbatim>\<open>TypeError\<close> on a string.  The \<^verbatim>\<open>double\<close> nearest to an integer is itself an integer and is
  named by it here.
\<close>

datatype py_arg = PyInt int | PyStr string

fun bit_length :: "nat \<Rightarrow> nat" where
  "bit_length n = (if n = 0 then 0 else Suc (bit_length (n div 2)))"

declare bit_length.simps [simp del]

definition nearest_double :: "int \<Rightarrow> int" where
  "nearest_double n =
     (let a = nat \<bar>n\<bar>; b = bit_length a in
      if b \<le> 53 then n
      else
        (let s = b - 53; q = a div 2 ^ s; r = a mod 2 ^ s; half = 2 ^ (s - 1);
             q' = (if r > half \<or> (r = half \<and> odd q) then q + 1 else q)
         in sgn n * int (q' * 2 ^ s)))"

definition host_PyFloat_AsDouble :: "py_arg \<Rightarrow> error + int" where
  "host_PyFloat_AsDouble val =
     (case val of
        PyInt n \<Rightarrow> if \<bar>nearest_double n\<bar> < 2 ^ 1024 then Inr (nearest_double n) else Inl OverflowError
      | PyStr s \<Rightarrow> Inl TypeError)"

definition host_PyLong_AsLongLong :: "py_arg \<Rightarrow> error + int" where
  "host_PyLong_AsLongLong val =
     (case val of
        PyInt n \<Rightarrow> if - (2 ^ 63) \<le> n \<and> n < 2 ^ 63 then Inr n else Inl OverflowError
      | PyStr s \<Rightarrow> Inl TypeError)"

text \<open>A transient for the scenarios of the factory: the list of the values appended.\<close>

definition list_conj_mut_raw :: "'e list \<Rightarrow> 'e \<Rightarrow> error + 'e list" where
  "list_conj_mut_raw t v = Inr (t @ [v])"

section \<open>Verified properties\<close>

subsection \<open>Failure semantics of Vector and SortedVector\<close>

lemma descend_error: "descend node level i = Inl e \<Longrightarrow> e = MemoryFault"
proof (induction node level i rule: descend.induct)
  case (1 node level i)
  then show ?case
    by (subst (asm) (2) descend.simps) (auto split: if_splits slot.splits)
qed

lemma slot_items_error: "slot_items ss = Inl e \<Longrightarrow> e = MemoryFault"
  by (induction ss) (auto split: sum.splits slot.splits elim: slot_item.elims)

lemma Vector_array_for_error:
  "0 \<le> i \<Longrightarrow> i < cnt self \<Longrightarrow> Vector_array_for self i = Inl e \<Longrightarrow> e = MemoryFault"
  by (auto simp: Vector_array_for_def split: if_splits sum.splits
      dest: descend_error slot_items_error)

lemma Vector_getitem_IndexError:
  assumes "- PY_SSIZE_T_MAX - 1 \<le> i" "i \<le> PY_SSIZE_T_MAX"
  shows "Vector_getitem self i = Inl IndexError \<longleftrightarrow> i < - cnt self \<or> cnt self \<le> i"
proof -
  define j where "j = (if i < 0 then cnt self + i else i)"
  have eq: "Vector_getitem self i =
      (if j < 0 \<or> j \<ge> cnt self then Inl IndexError
       else (case Vector_array_for self j of Inl e \<Rightarrow> Inl e
             | Inr arr \<Rightarrow> PyTuple_GET_ITEM arr (j AND MASK)))"
    using assms unfolding j_def
    by (simp add: Vector_getitem_def PyLong_AsSsize_t_def Let_def)
  have rng: "(j < 0 \<or> j \<ge> cnt self) \<longleftrightarrow> (i < - cnt self \<or> cnt self \<le> i)"
    by (auto simp: j_def)
  show ?thesis
  proof (cases "j < 0 \<or> j \<ge> cnt self")
    case True
    with eq rng show ?thesis by simp
  next
    case False
    then have "Vector_getitem self i \<noteq> Inl IndexError"
      using eq Vector_array_for_error [of j self]
      by (auto simp: PyTuple_GET_ITEM_def split: sum.splits if_splits)
    with False rng show ?thesis by simp
  qed
qed

lemma Vector_getitem_negative:
  assumes "- cnt self \<le> i" "i < 0" "cnt self \<le> PY_SSIZE_T_MAX"
  shows "Vector_getitem self i = Vector_getitem self (cnt self + i)"
  using assms
  by (simp add: Vector_getitem_def PyLong_AsSsize_t_def Let_def PY_SSIZE_T_MAX_def)

text \<open>
  Claim C6, as amended. An integer index \<open>i\<close> within \<^verbatim>\<open>Py_ssize_t\<close> makes indexed get on a
  Vector fail with \<^verbatim>\<open>IndexError\<close> exactly when \<open>i < - count\<close> or \<open>count \<le> i\<close>: a negative
  index is first offset by the count, so get at an index \<open>i\<close> of \<open>[- count, -1]\<close> is get at
  \<open>count + i\<close>. An index outside \<^verbatim>\<open>Py_ssize_t\<close> fails with \<^verbatim>\<open>OverflowError\<close>. \<open>pop\<close> on an
  empty Vector fails with \<^verbatim>\<open>IndexError\<close>. \<open>first\<close> and \<open>last\<close> on an empty SortedVector do not
  fail: they return \<^verbatim>\<open>None\<close>.
\<close>

theorem failure_semantics:
  "(- PY_SSIZE_T_MAX - 1 \<le> i \<and> i \<le> PY_SSIZE_T_MAX \<longrightarrow>
      (Vector_getitem self i = Inl IndexError \<longleftrightarrow> i < - cnt self \<or> cnt self \<le> i))
   \<and> (i < - PY_SSIZE_T_MAX - 1 \<or> PY_SSIZE_T_MAX < i \<longrightarrow> Vector_getitem self i = Inl OverflowError)
   \<and> (cnt self = 0 \<longrightarrow> Vector_pop self = Inl IndexError)
   \<and> (sv_cnt sv = 0 \<longrightarrow> SortedVector_last sv = Inr Py_None)
   \<and> (sv_cnt sv = 0 \<longrightarrow> SortedVector_first sv = Inr Py_None)
   \<and> (- cnt self \<le> i \<and> i < 0 \<and> cnt self \<le> PY_SSIZE_T_MAX \<longrightarrow>
        Vector_getitem self i = Vector_getitem self (cnt self + i))"
  using Vector_getitem_IndexError [of i self] Vector_getitem_negative [of self i]
  by (auto simp: Vector_pop_def SortedVector_last_def SortedVector_first_def Vector_getitem_def
      PyLong_AsSsize_t_def)

text \<open>
  The theorem at a one-element vector (indices 1, \<open>2^63\<close> and -1), the empty vector and the
  empty sorted vector.
\<close>

theorem failure_semantics_witness:
  "(Vector_getitem (Vector_create 1 BITS EMPTY_NODE [Obj (7::int)] None) 1 = Inl IndexError)
   \<and> Vector_getitem (Vector_create 1 BITS EMPTY_NODE [Obj (7::int)] None) (2 ^ 63) = Inl OverflowError
   \<and> Vector_pop (EMPTY_VECTOR :: int Vector) = Inl IndexError
   \<and> SortedVector_last (EMPTY_SORTED_VECTOR :: int SortedVector) = Inr Py_None
   \<and> SortedVector_first (EMPTY_SORTED_VECTOR :: int SortedVector) = Inr Py_None
   \<and> Vector_getitem (Vector_create 1 BITS EMPTY_NODE [Obj (7::int)] None) (- 1) =
       Vector_getitem (Vector_create 1 BITS EMPTY_NODE [Obj (7::int)] None) 0
   \<and> Vector_getitem (Vector_create 1 BITS EMPTY_NODE [Obj (7::int)] None) (- 1) = Inr (Obj 7)"
proof -
  let ?v = "Vector_create 1 BITS EMPTY_NODE [Obj (7::int)] None"
  let ?sv = "EMPTY_SORTED_VECTOR :: int SortedVector"
  have g: "Vector_getitem ?v 0 = Inr (Obj 7)"
    by (simp add: Vector_getitem_def Vector_create_def Vector_tail_off_def WIDTH_def BITS_def
        PyLong_AsSsize_t_def PY_SSIZE_T_MAX_def Vector_array_for_def PyTuple_GET_ITEM_def MASK_def)
  have n: "Vector_getitem ?v (- 1) = Vector_getitem ?v 0"
    using failure_semantics [of "- 1" ?v ?sv]
    by (simp add: Vector_create_def PY_SSIZE_T_MAX_def)
  show ?thesis
    using failure_semantics [of 1 ?v ?sv] failure_semantics [of "2 ^ 63" ?v ?sv]
      failure_semantics [of 0 "EMPTY_VECTOR :: int Vector" ?sv] n g
    by (simp add: Vector_create_def EMPTY_VECTOR_def EMPTY_SORTED_VECTOR_def PY_SSIZE_T_MAX_def)
qed

text \<open>
  Claim C6 as stated fails: index \<open>-1\<close> is outside \<open>[0, 1)\<close>, yet get on the one-element
  vector returns the element; and \<open>last\<close> on the empty SortedVector returns \<^verbatim>\<open>None\<close>
  rather than an error.
\<close>

theorem failure_semantics_counterexample:
  "Vector_conj EMPTY_VECTOR (Obj (7::int)) = Inr (Vector_create 1 BITS EMPTY_NODE [Obj 7] None)
   \<and> Vector_getitem (Vector_create 1 BITS EMPTY_NODE [Obj (7::int)] None) (- 1) = Inr (Obj 7)
   \<and> SortedVector_last (EMPTY_SORTED_VECTOR :: int SortedVector) = Inr Py_None"
  by (simp add: Vector_conj_def Vector_getitem_def Vector_create_def EMPTY_VECTOR_def
      Vector_tail_off_def WIDTH_def BITS_def PyLong_AsSsize_t_def PY_SSIZE_T_MAX_def
      Vector_array_for_def PyTuple_GET_ITEM_def MASK_def SortedVector_last_def
      EMPTY_SORTED_VECTOR_def)


subsection \<open>Root promotion of the Vector\<close>

lemma conj_all_append:
  "conj_all v (xs @ ys) = (case conj_all v xs of Inl e \<Rightarrow> Inl e | Inr v' \<Rightarrow> conj_all v' ys)"
  by (induction xs arbitrary: v) (auto split: sum.splits)

lemma conj_all_0_1024: "conj_all EMPTY_VECTOR (map Obj [0..1024]) = Inr vec_0_1024"
  by code_simp

lemma upto_split_1024: "[0..1056] = [0..1024] @ [1025..1056::int]"
  by code_simp

lemma conj_all_0_1056_shift:
  "map_sum id shift (conj_all EMPTY_VECTOR (map Obj [0..1056])) = Inr 10"
  unfolding upto_split_1024 map_append conj_all_append conj_all_0_1024
  by code_simp

lemma Vector_getitem_vec_0_1024:
  "Vector_getitem vec_0_1024 0 = Inr (Obj 0)" "Vector_getitem vec_0_1024 1024 = Inr (Obj 1024)"
  by code_simp+

lemma Vector_conj_shift:
  assumes "Vector_conj self val = Inr v'"
  shows "(cnt self - Vector_tail_off self < int WIDTH \<longrightarrow> shift v' = shift self \<and> root v' = root self)
    \<and> (cnt self - Vector_tail_off self \<ge> int WIDTH \<longrightarrow>
         (shift v' = shift self + BITS \<longleftrightarrow> drop_bit BITS (cnt self) > (2::int) ^ shift self)
       \<and> (shift v' = shift self \<longleftrightarrow> \<not> drop_bit BITS (cnt self) > (2::int) ^ shift self)
       \<and> (drop_bit BITS (cnt self) > (2::int) ^ shift self \<longrightarrow>
            array (root v') ! 0 = Child (root self)))"
  using assms
  by (auto simp: Vector_conj_def Let_def Vector_create_def WIDTH_def BITS_def split: if_splits sum.splits)

text \<open>
  Claim C3, as amended. A conj that finds room in the tail keeps root and shift. A conj
  that pushes the full tail into the trie raises the shift by 5, under a new root
  whose slot 0 is the old root, exactly when \<open>(count >> 5) > (1 << shift)\<close>, and keeps the
  shift otherwise. Starting from the empty Vector and conj-ing \<open>0..1024\<close> in order, the
  shift is still 5 after element 1024 is appended (the root then holds 32 full leaves),
  with \<open>get(0) = 0\<close> and \<open>get(1024) = 1024\<close>; the shift is 10 once element 1056 is appended.
\<close>

theorem Vector_conj_root_promotion:
  "(Vector_conj self val = Inr v' \<longrightarrow>
      (cnt self - Vector_tail_off self < int WIDTH \<longrightarrow> shift v' = shift self \<and> root v' = root self)
    \<and> (cnt self - Vector_tail_off self \<ge> int WIDTH \<longrightarrow>
         (shift v' = shift self + BITS \<longleftrightarrow> drop_bit BITS (cnt self) > (2::int) ^ shift self)
       \<and> (shift v' = shift self \<longleftrightarrow> \<not> drop_bit BITS (cnt self) > (2::int) ^ shift self)
       \<and> (drop_bit BITS (cnt self) > (2::int) ^ shift self \<longrightarrow>
            array (root v') ! 0 = Child (root self))))
   \<and> conj_all EMPTY_VECTOR (map Obj [0..1024]) = Inr vec_0_1024
   \<and> shift vec_0_1024 = 5
   \<and> Vector_getitem vec_0_1024 0 = Inr (Obj 0)
   \<and> Vector_getitem vec_0_1024 1024 = Inr (Obj 1024)
   \<and> map_sum id shift (conj_all EMPTY_VECTOR (map Obj [0..1056])) = Inr 10"
  using Vector_conj_shift [of self val v'] conj_all_0_1024 conj_all_0_1056_shift
    Vector_getitem_vec_0_1024
  by (simp add: vec_0_1024_def Vector_create_def)

text \<open>
  The theorem at the vector \<open>0..31\<close> (full tail, empty root): appending 32 pushes the tail
  into the trie without a new root, since \<open>32 >> 5 = 1\<close> is not above \<open>1 << 5\<close>.
\<close>

theorem Vector_conj_root_promotion_witness:
  "Vector_conj vec_0_31 (Obj 32) =
     Inr (Vector_create 33 5
            (VectorNode ((replicate 32 NULL)[0 := Child (full_leaf 0)]) None) [Obj 32] None)
   \<and> cnt vec_0_31 - Vector_tail_off vec_0_31 \<ge> int WIDTH
   \<and> \<not> drop_bit BITS (cnt vec_0_31) > (2::int) ^ shift vec_0_31
   \<and> shift (Vector_create 33 5
            (VectorNode ((replicate 32 NULL)[0 := Child (full_leaf 0)]) None) [Obj (32::int)] None)
       = shift vec_0_31"
proof -
  have e: "Vector_conj vec_0_31 (Obj 32) =
     Inr (Vector_create 33 5
            (VectorNode ((replicate 32 NULL)[0 := Child (full_leaf 0)]) None) [Obj 32] None)"
    by code_simp
  have f: "cnt vec_0_31 - Vector_tail_off vec_0_31 \<ge> int WIDTH"
    by code_simp
  have g: "\<not> drop_bit BITS (cnt vec_0_31) > (2::int) ^ shift vec_0_31"
    by code_simp
  show ?thesis
    using Vector_conj_root_promotion [of vec_0_31 "Obj 32" "Vector_create 33 5
            (VectorNode ((replicate 32 NULL)[0 := Child (full_leaf 0)]) None) [Obj 32] None"] e f g
    by (simp add: Vector_create_def)
qed

text \<open>
  Claim C3 as stated fails: after \<open>0..1024\<close> have been appended to the empty Vector the
  shift is 5, not 10.
\<close>

theorem Vector_conj_root_promotion_counterexample:
  "conj_all EMPTY_VECTOR (map Obj [0..1024]) = Inr vec_0_1024
   \<and> shift vec_0_1024 = 5 \<and> shift vec_0_1024 \<noteq> 10"
  using conj_all_0_1024 by (simp add: vec_0_1024_def Vector_create_def)

subsection \<open>Bit utilities of the trie\<close>

lemma ctpop_0 [simp]: "ctpop 0 = 0"
  by (simp add: ctpop.simps)

lemma mask_hash_less: "mask_hash h sh < 32"
proof -
  have "unat (signed_drop_bit sh h AND 31) \<le> unat (31 :: 64 word)"
    by (rule word_and_le1 [THEN word_le_nat_alt [THEN iffD1]])
  then show ?thesis by (simp add: mask_hash_def)
qed

lemma bitpos_eq: "bitpos h sh = 2 ^ mask_hash h sh"
  by (simp add: bitpos_def push_bit_eq_mult)

lemma bitpos_neq_0 [simp]: "bitpos h sh \<noteq> 0"
  using mask_hash_less [of h sh] by (simp add: bitpos_eq)

lemma bitpos_and_minus_1 [simp]: "bitpos h sh AND (bitpos h sh - 1) = 0"
proof -
  have "(2 :: 32 word) ^ n AND (2 ^ n - 1) = 0" for n
    unfolding mask_eq_exp_minus_1 [symmetric]
    by (rule bit_eqI) (auto simp: bit_simps)
  then show ?thesis by (simp add: bitpos_eq)
qed

lemma bitmap_index_single [simp]: "bitmap_index (bitpos h sh) (bitpos h sh) = 0"
  by (simp add: bitmap_index_def)

lemma bitmap_index_0 [simp]: "bitmap_index 0 b = 0"
  by (simp add: bitmap_index_def)

lemma node_assoc_EMPTY_BIN:
  "sh < 64 \<Longrightarrow> node_assoc H EMPTY_BIN sh h key val = Inr (Replaced (BitmapIndexedNode (bitpos h sh) [Entry key val]), 1)"
  by (simp add: node_assoc.simps EMPTY_BIN_def WIDTH_def BITS_def)


lemma remaining_children_Suc:
  "remaining_children arr idx (Suc n) =
     remaining_children arr idx n @
       (case arr ! n of Some node \<Rightarrow> if n \<noteq> idx then [SubNode node] else [] | None \<Rightarrow> [])"
  by (simp add: remaining_children_def)

lemma bit_or_push_bit_1:
  "n < 32 \<Longrightarrow> bit (bm OR push_bit n (1 :: 32 word)) i \<longleftrightarrow> bit bm i \<or> i = n"
  by (auto simp: bit_simps)

lemma pack_fold:
  "n \<le> 32 \<Longrightarrow>
   fold (\<lambda>i (new_array, bm).
                (case arr ! i of
                   Some node \<Rightarrow>
                     if i \<noteq> idx then (new_array @ [SubNode node], bm OR push_bit i 1)
                     else (new_array, bm)
                 | None \<Rightarrow> (new_array, bm)))
          [0..<n] ([], 0 :: 32 word) = (na, bm) \<Longrightarrow>
   na = remaining_children arr idx n \<and> (\<forall>i. bit bm i \<longleftrightarrow> i < n \<and> i \<noteq> idx \<and> arr ! i \<noteq> None)"
proof (induction n arbitrary: na bm)
  case 0
  then show ?case by (simp add: remaining_children_def)
next
  case (Suc n)
  obtain na' bm' where f: "fold (\<lambda>i (new_array, bm).
                (case arr ! i of
                   Some node \<Rightarrow>
                     if i \<noteq> idx then (new_array @ [SubNode node], bm OR push_bit i 1)
                     else (new_array, bm)
                 | None \<Rightarrow> (new_array, bm)))
          [0..<n] ([], 0 :: 32 word) = (na', bm')"
    by (rule prod.exhaust)
  from Suc.prems have n: "n \<le> 32" "n < 32" by simp_all
  from Suc.IH [OF n(1) f] have IH1: "na' = remaining_children arr idx n"
    and IH2: "\<And>i. bit bm' i \<longleftrightarrow> i < n \<and> i \<noteq> idx \<and> arr ! i \<noteq> None"
    by simp_all
  from Suc.prems(2) f have step: "(na, bm) = (case arr ! n of
                   Some node \<Rightarrow>
                     if n \<noteq> idx then (na' @ [SubNode node], bm' OR push_bit n 1)
                     else (na', bm')
                 | None \<Rightarrow> (na', bm'))"
    by simp
  have keep: "na = remaining_children arr idx (Suc n)"
    if "na = na'" "arr ! n = None \<or> n = idx"
    using that IH1 by (auto simp: remaining_children_Suc split: option.splits)
  have bits_keep: "bit bm i \<longleftrightarrow> i < Suc n \<and> i \<noteq> idx \<and> arr ! i \<noteq> None"
    if "bm = bm'" "arr ! n = None \<or> n = idx" for i
  proof (cases "i = n")
    case True
    with that IH2 [of n] show ?thesis by auto
  next
    case False
    then have "i < Suc n \<longleftrightarrow> i < n" by arith
    with that IH2 [of i] show ?thesis by simp
  qed
  show ?case
  proof (cases "arr ! n = None \<or> n = idx")
    case True
    with step have "na = na'" "bm = bm'"
      by (auto split: option.splits)
    with True keep bits_keep show ?thesis by blast
  next
    case False
    then obtain node where node: "arr ! n = Some node" and ne: "n \<noteq> idx"
      by auto
    with step have eqs: "na = na' @ [SubNode node]" "bm = bm' OR push_bit n 1"
      by simp_all
    have 1: "na = remaining_children arr idx (Suc n)"
      using eqs(1) IH1 node ne by (simp add: remaining_children_Suc)
    have b: "bit bm i \<longleftrightarrow> bit bm' i \<or> i = n" for i
      unfolding eqs(2) by (rule bit_or_push_bit_1 [OF n(2)])
    have 2: "bit bm i \<longleftrightarrow> i < Suc n \<and> i \<noteq> idx \<and> arr ! i \<noteq> None" for i
    proof (cases "i = n")
      case True
      with b [of i] node ne show ?thesis
        by simp
    next
      case False
      then have "i < Suc n \<longleftrightarrow> i < n" by arith
      with False b [of i] IH2 [of i] show ?thesis
        by simp
    qed
    from 1 2 show ?thesis by blast
  qed
qed

lemma ArrayNode_pack_eq:
  assumes "ArrayNode_pack arr idx = BitmapIndexedNode bm na"
  shows "na = remaining_children arr idx WIDTH
    \<and> (\<forall>i. bit bm i \<longleftrightarrow> i < WIDTH \<and> i \<noteq> idx \<and> arr ! i \<noteq> None)"
proof -
  obtain na' bm' where f: "fold (\<lambda>i (new_array, bm).
                (case arr ! i of
                   Some node \<Rightarrow>
                     if i \<noteq> idx then (new_array @ [SubNode node], bm OR push_bit i 1)
                     else (new_array, bm)
                 | None \<Rightarrow> (new_array, bm)))
          [0..<WIDTH] ([], 0 :: 32 word) = (na', bm')"
    by (rule prod.exhaust)
  with assms have eqs: "na = na'" "bm = bm'"
    by (simp_all add: ArrayNode_pack_def)
  have "WIDTH \<le> 32"
    by (simp add: WIDTH_def BITS_def)
  from pack_fold [OF this f] eqs show ?thesis
    by simp
qed

lemma ArrayNode_dissoc_Gone:
  assumes "sh < 64" "mask_hash hash_val sh < length arr"
    and "arr ! mask_hash hash_val sh = Some child"
    and "node_dissoc child (sh + BITS) hash_val key = Inr Gone"
  shows "node_dissoc (ArrayNode count arr) sh hash_val key =
     Inr (Replaced (if count \<le> 8 then ArrayNode_pack arr (mask_hash hash_val sh)
                    else ArrayNode (count - 1) (arr[mask_hash hash_val sh := None])))"
  using assms by (simp add: node_dissoc.simps WIDTH_def BITS_def)


lemma map_17_kinds:
  "map_sum id root_kind map_17 = Inr (Array 17)"
  "map_sum id root_kind (map_17_without [0..<9]) = Inr (Array 8)"
  "map_sum id root_kind (map_17_without [0..<10]) = Inr (Bitmap_indexed 7)"
  by code_simp+

subsection \<open>Demotion of an array node\<close>

text \<open>
  Claim C4, as amended. When a dissoc clears a child slot of an Array node (the child's
  dissoc returned null), the node is packed into a Bitmap-indexed node if its
  \<open>child_count\<close> before the removal is at most 8, that is when the count drops from 8
  to 7; otherwise it stays an Array node with the slot cleared and the count
  decremented. The packed node holds the remaining children in slot order and its
  bit set is exactly the occupied slot indices other than the cleared one. In
  particular, after inserting 17 entries with distinct first-level slots the root is an
  Array node with 17 children; after removing 9 of them it is still an Array node,
  with 8 children; the removal of a tenth makes the root Bitmap-indexed, with 7
  children.
\<close>

theorem ArrayNode_demotion:
  "(sh < 64 \<and> mask_hash hash_val sh < length arr
      \<and> arr ! mask_hash hash_val sh = Some child
      \<and> node_dissoc child (sh + BITS) hash_val key = Inr Gone \<longrightarrow>
        node_dissoc (ArrayNode count arr) sh hash_val key =
          Inr (Replaced (if count \<le> 8 then ArrayNode_pack arr (mask_hash hash_val sh)
                         else ArrayNode (count - 1) (arr[mask_hash hash_val sh := None]))))
   \<and> (ArrayNode_pack arr idx = BitmapIndexedNode bm na \<longrightarrow>
        na = remaining_children arr idx WIDTH
        \<and> (\<forall>i. bit bm i \<longleftrightarrow> i < WIDTH \<and> i \<noteq> idx \<and> arr ! i \<noteq> None))
   \<and> map_sum id root_kind map_17 = Inr (Array 17)
   \<and> map_sum id root_kind (map_17_without [0..<9]) = Inr (Array 8)
   \<and> map_sum id root_kind (map_17_without [0..<10]) = Inr (Bitmap_indexed 7)"
  using ArrayNode_dissoc_Gone [of sh hash_val arr child key count]
    ArrayNode_pack_eq [of arr idx bm na] map_17_kinds
  by blast

text \<open>
  The theorem at an Array node with the two children 3 and 5 and count 2: removing
  the key 3 packs the node into a Bitmap-indexed node whose only bit is bit 5.
\<close>

theorem ArrayNode_demotion_witness:
  "node_dissoc
     (ArrayNode 2 ((replicate 32 None)
        [3 := Some (BitmapIndexedNode 1 [Entry (Obj (3::nat)) (Obj (0::nat))]),
         5 := Some (BitmapIndexedNode 1 [Entry (Obj 5) (Obj 0)])]))
     0 3 (Obj 3)
   = Inr (Replaced (BitmapIndexedNode 32 [SubNode (BitmapIndexedNode 1 [Entry (Obj 5) (Obj 0)])]))
   \<and> (\<forall>i. bit (32 :: 32 word) i \<longleftrightarrow> i < WIDTH \<and> i \<noteq> 3
          \<and> ((replicate 32 None)
        [3 := Some (BitmapIndexedNode 1 [Entry (Obj (3::nat)) (Obj (0::nat))]),
         5 := Some (BitmapIndexedNode 1 [Entry (Obj 5) (Obj 0)])]) ! i \<noteq> None)"
proof -
  let ?c3 = "BitmapIndexedNode 1 [Entry (Obj (3::nat)) (Obj (0::nat))]"
  let ?c5 = "BitmapIndexedNode 1 [Entry (Obj (5::nat)) (Obj (0::nat))]"
  let ?arr = "(replicate 32 None)[3 := Some ?c3, 5 := Some ?c5]"
  have m: "mask_hash 3 0 = 3"
    by (simp add: mask_hash_def)
  have g: "node_dissoc ?c3 (0 + BITS) 3 (Obj 3) = Inr Gone"
    by (simp add: node_dissoc.simps BITS_def bitpos_def mask_hash_def bitmap_index_def)
  have p: "ArrayNode_pack ?arr 3 = BitmapIndexedNode 32 [SubNode ?c5]"
    by code_simp
  from ArrayNode_demotion [where sh = 0 and hash_val = 3 and arr = ?arr and child = ?c3
      and key = "Obj 3" and count = 2 and idx = 3 and bm = 32 and na = "[SubNode ?c5]"] m g p
  show ?thesis
    by simp
qed

text \<open>
  Claim C4 as stated fails: once 9 of the 17 entries are removed the child count has
  reached 8, and the root is still an Array node.
\<close>

theorem ArrayNode_demotion_counterexample:
  "map_sum id root_kind (map_17_without [0..<9]) = Inr (Array 8)
   \<and> map_sum id root_kind (map_17_without [0..<9]) \<noteq> Inr (Bitmap_indexed 8)"
  using map_17_kinds(2) by simp

subsection \<open>Hash-collision nodes\<close>

lemma HashCollisionNode_dissoc_Gone:
  "node_dissoc (HashCollisionNode hash count arr) sh hash_val key = Inr Gone \<longleftrightarrow>
     count = 1 \<and> (\<exists>idx. HashCollisionNode_find_index count arr key = Inr (Some idx))"
  by (auto simp: node_dissoc.simps split: sum.splits option.splits)

lemma collision_scenario:
  fixes H :: "'k PyObject \<Rightarrow> 64 word" and k1 k2 :: "'k PyObject" and v1 v2 d :: "'v PyObject"
  assumes "k1 \<noteq> Py_None" "k2 \<noteq> Py_None" "k1 \<noteq> k2" "H k1 = H k2"
  defines "b \<equiv> bitpos (H k1) 0"
  defines "m1 \<equiv> Map_create 1 (Some (BitmapIndexedNode b [Entry k1 v1])) None"
  defines "m2 \<equiv> Map_create 2 (Some (BitmapIndexedNode b [SubNode (HashCollisionNode (H k1) 2 [(k1, v1), (k2, v2)])])) None"
  defines "m3 \<equiv> Map_create 1 (Some (BitmapIndexedNode b [SubNode (HashCollisionNode (H k1) 1 [(k2, v2)])])) None"
  shows "Map_assoc H EMPTY_MAP k1 v1 = Inr (Fresh m1)
    \<and> Map_assoc H m1 k2 v2 = Inr (Fresh m2)
    \<and> Map_dissoc H m2 k1 = Inr (Fresh m3)
    \<and> Map_get H m3 k2 d = Inr v2
    \<and> Map_contains H m3 k1 = Inr False
    \<and> Map_dissoc H m3 k2 = Inr (Fresh (Map_create 0 None None))"
  using assms(1-4)
  by (simp add: Map_assoc_def Map_dissoc_def Map_get_def Map_contains_def EMPTY_MAP_def Map_create_def
      node_assoc_EMPTY_BIN node_find.simps node_assoc.simps create_node.simps node_dissoc.simps
      m1_def m2_def m3_def b_def Let_def HashCollisionNode_find_index_def find_index_from.simps
      numeral_2_eq_2)

text \<open>
  Claim C5, as amended. A hash-collision node returns null from dissoc exactly when
  the key is found and the node holds one entry. For two distinct keys \<open>k1\<close>, \<open>k2\<close> (not
  \<^verbatim>\<open>None\<close>) with equal hashes, inserted into the empty map: the map has count 2 and its
  root holds one hash-collision node with both entries; removing \<open>k1\<close> leaves a map with
  count 1 in which \<open>k2\<close> is retrievable and \<open>k1\<close> is absent, and whose collision node has
  not collapsed to a plain entry: it is a hash-collision node with the one entry
  \<open>(k2, v2)\<close>. Removing \<open>k2\<close> as well empties the map.
\<close>

theorem hash_collision_dissoc:
  fixes H :: "'k PyObject \<Rightarrow> 64 word" and k1 k2 :: "'k PyObject" and v1 v2 d :: "'v PyObject"
  shows
  "(node_dissoc (HashCollisionNode hash count arr) sh hash_val key = Inr Gone \<longleftrightarrow>
     count = 1 \<and> (\<exists>idx. HashCollisionNode_find_index count arr key = Inr (Some idx)))
   \<and> (k1 \<noteq> Py_None \<and> k2 \<noteq> Py_None \<and> k1 \<noteq> k2 \<and> H k1 = H k2 \<longrightarrow>
        Map_assoc H EMPTY_MAP k1 v1 =
          Inr (Fresh (Map_create 1 (Some (BitmapIndexedNode (bitpos (H k1) 0) [Entry k1 v1])) None))
      \<and> Map_assoc H (Map_create 1 (Some (BitmapIndexedNode (bitpos (H k1) 0) [Entry k1 v1])) None) k2 v2 =
          Inr (Fresh (Map_create 2 (Some (BitmapIndexedNode (bitpos (H k1) 0)
                 [SubNode (HashCollisionNode (H k1) 2 [(k1, v1), (k2, v2)])])) None))
      \<and> Map_dissoc H (Map_create 2 (Some (BitmapIndexedNode (bitpos (H k1) 0)
                 [SubNode (HashCollisionNode (H k1) 2 [(k1, v1), (k2, v2)])])) None) k1 =
          Inr (Fresh (Map_create 1 (Some (BitmapIndexedNode (bitpos (H k1) 0)
                 [SubNode (HashCollisionNode (H k1) 1 [(k2, v2)])])) None))
      \<and> Map_get H (Map_create 1 (Some (BitmapIndexedNode (bitpos (H k1) 0)
                 [SubNode (HashCollisionNode (H k1) 1 [(k2, v2)])])) None) k2 d = Inr v2
      \<and> Map_contains H (Map_create 1 (Some (BitmapIndexedNode (bitpos (H k1) 0)
                 [SubNode (HashCollisionNode (H k1) 1 [(k2, v2)])])) None) k1 = Inr False
      \<and> Map_dissoc H (Map_create 1 (Some (BitmapIndexedNode (bitpos (H k1) 0)
                 [SubNode (HashCollisionNode (H k1) 1 [(k2, v2)])])) None) k2 =
          Inr (Fresh (Map_create 0 None None)))"
  using HashCollisionNode_dissoc_Gone [where hash = hash and count = count and arr = arr
      and sh = sh and hash_val = hash_val and key = key]
    collision_scenario [where ?k1.0 = k1 and ?k2.0 = k2 and H = H and ?v1.0 = v1 and ?v2.0 = v2
      and d = d]
  by blast

text \<open>The theorem at the keys 2 and 102, which collide under \<open>hash_mod_100\<close>.\<close>

theorem hash_collision_dissoc_witness:
  "Obj (2::nat) \<noteq> Py_None \<and> Obj (102::nat) \<noteq> Py_None \<and> Obj (2::nat) \<noteq> Obj 102
   \<and> hash_mod_100 (Obj 2) = hash_mod_100 (Obj 102)
   \<and> Map_dissoc hash_mod_100 (Map_create 2 (Some (BitmapIndexedNode 4
                 [SubNode (HashCollisionNode 2 2 [(Obj 2, Obj (10::nat)), (Obj 102, Obj 20)])])) None) (Obj 2) =
          Inr (Fresh (Map_create 1 (Some (BitmapIndexedNode 4
                 [SubNode (HashCollisionNode 2 1 [(Obj 102, Obj 20)])])) None))
   \<and> Map_get hash_mod_100 (Map_create 1 (Some (BitmapIndexedNode 4
                 [SubNode (HashCollisionNode 2 1 [(Obj 102, Obj (20::nat))])])) None) (Obj 102) Py_None
        = Inr (Obj 20)"
proof -
  have h: "hash_mod_100 (Obj 2) = 2" "hash_mod_100 (Obj 102) = 2"
    by (simp_all add: hash_mod_100_def)
  have b: "bitpos 2 0 = 4"
    by (simp add: bitpos_def mask_hash_def)
  have hyp: "Obj (2::nat) \<noteq> Py_None \<and> Obj (102::nat) \<noteq> Py_None \<and> Obj (2::nat) \<noteq> Obj 102
      \<and> hash_mod_100 (Obj 2) = hash_mod_100 (Obj 102)"
    by (simp add: h)
  note t = hash_collision_dissoc [where H = hash_mod_100 and ?k1.0 = "Obj 2" and ?k2.0 = "Obj 102"
      and ?v1.0 = "Obj (10::nat)" and ?v2.0 = "Obj (20::nat)" and d = Py_None
      and hash = 2 and count = 1 and arr = "[(Obj (102::nat), Obj (20::nat))]" and sh = 5
      and hash_val = 2 and key = "Obj 102", THEN conjunct2, rule_format, OF hyp]
  from t hyp show ?thesis
    by (simp add: h b)
qed

text \<open>
  Claim C5 as stated fails: with the colliding keys 2 and 102 in the map, removing key 2
  leaves the root with a hash-collision node of one entry, not with the plain entry
  for key 102.
\<close>

theorem hash_collision_dissoc_counterexample:
  "assoc_all hash_mod_100 EMPTY_MAP [(Obj 2, Obj 10), (Obj 102, Obj 20)] =
     Inr (Map_create 2 (Some (BitmapIndexedNode 4
            [SubNode (HashCollisionNode 2 2 [(Obj 2, Obj (10::nat)), (Obj 102, Obj 20)])])) None)
   \<and> Map_dissoc hash_mod_100 (Map_create 2 (Some (BitmapIndexedNode 4
            [SubNode (HashCollisionNode 2 2 [(Obj 2, Obj (10::nat)), (Obj 102, Obj 20)])])) None) (Obj 2) =
        Inr (Fresh (Map_create 1 (Some (BitmapIndexedNode 4
            [SubNode (HashCollisionNode 2 1 [(Obj 102, Obj 20)])])) None))
   \<and> Map_create 1 (Some (BitmapIndexedNode 4
            [SubNode (HashCollisionNode 2 1 [(Obj 102, Obj (20::nat))])])) None
      \<noteq> Map_create 1 (Some (BitmapIndexedNode 4 [Entry (Obj 102) (Obj 20)])) None"
proof -
  have h: "hash_mod_100 (Obj 2) = 2" "hash_mod_100 (Obj 102) = 2"
    by (simp_all add: hash_mod_100_def)
  have b: "bitpos 2 0 = 4"
    by (simp add: bitpos_def mask_hash_def)
  have ne: "Obj (2::nat) \<noteq> Py_None" "Obj (102::nat) \<noteq> Py_None" "Obj (2::nat) \<noteq> Obj 102"
    by simp_all
  have heq: "hash_mod_100 (Obj 2) = hash_mod_100 (Obj 102)"
    by (simp add: h)
  from collision_scenario [OF ne heq, where ?v1.0 = "Obj (10::nat)" and ?v2.0 = "Obj (20::nat)"]
  show ?thesis
    by (simp add: h b deref_def Map_create_def)
qed

subsection \<open>The key \<^verbatim>\<open>None\<close>\<close>

text \<open>
  Claim C2 at the key \<^verbatim>\<open>None\<close>. \<^verbatim>\<open>Map_assoc\<close> stores the pair \<^verbatim>\<open>(None, val)\<close> in the root;
  every later lookup of that slot takes the pair for a child node, because its key is
  \<^verbatim>\<open>Py_None\<close>, and casts the value to a node: \<^verbatim>\<open>get(None)\<close> on the result does not return
  \<open>val\<close>.
\<close>

theorem Map_None_key:
  "Map_assoc H EMPTY_MAP Py_None val =
     Inr (Fresh (Map_create 1 (Some (BitmapIndexedNode (bitpos (H Py_None) 0) [Entry Py_None val])) None))
   \<and> Map_get H (Map_create 1 (Some (BitmapIndexedNode (bitpos (H Py_None) 0) [Entry Py_None val])) None)
         Py_None default_val = Inl MemoryFault"
  by (simp add: Map_assoc_def Map_get_def EMPTY_MAP_def Map_create_def node_assoc_EMPTY_BIN
      node_find.simps)

subsection \<open>Equality is guarded by the type\<close>

text \<open>
  Claim C10. Equality is guarded by the type of the second operand: whatever object
  \<open>other\<close> is, if it is not a cons cell then \<^verbatim>\<open>Cons_richcompare\<close> with \<^verbatim>\<open>Py_EQ\<close> answers
  \<^verbatim>\<open>False\<close>, if it is not a Vector then \<^verbatim>\<open>Vector_richcompare\<close> does, and if it is not a HashMap
  then \<^verbatim>\<open>Map_richcompare\<close> does; so a host sequence or mapping with the same elements is
  never equal to a Cons, a Vector or a HashMap, and neither the counts nor the elements
  are looked at.
\<close>

theorem equality_type_guarded:
  "(\<not> is_Cons other \<longrightarrow> Cons_richcompare (ConsObj f r) other Py_EQ = PyBool False)
   \<and> (\<not> is_Vector other \<longrightarrow> Vector_richcompare v other Py_EQ = Inr (PyBool False))
   \<and> (\<not> is_Map other \<longrightarrow> Map_richcompare H m other Py_EQ = Inr (PyBool False))"
  by (cases other) (auto simp: Cons_richcompare_def Vector_richcompare_def Map_richcompare_def)

text \<open>
  The theorem at the host sequence \<open>[1, 2]\<close>, compared with the cons list, the Vector
  and a HashMap of the same elements.
\<close>

theorem equality_type_guarded_witness:
  "\<not> is_Cons (HostSeq [Obj (1::nat), Obj 2] :: (nat, nat, nat) PyValue)
   \<and> \<not> is_Vector (HostSeq [Obj (1::nat), Obj 2] :: (nat, nat, nat) PyValue)
   \<and> \<not> is_Map (HostSeq [Obj (1::nat), Obj 2] :: (nat, nat, nat) PyValue)
   \<and> Cons_richcompare (ConsObj (Obj 1) (ConsObj (Obj 2) NoneObj))
        (HostSeq [Obj (1::nat), Obj 2] :: (nat, nat, nat) PyValue) Py_EQ = PyBool False
   \<and> Vector_richcompare (Vector_create 2 5 EMPTY_NODE [Obj 1, Obj 2] None)
        (HostSeq [Obj (1::nat), Obj 2] :: (nat, nat, nat) PyValue) Py_EQ = Inr (PyBool False)
   \<and> Map_richcompare hash_mod_100
        (Map_create 2 (Some (BitmapIndexedNode 6 [Entry (Obj 1) (Obj 1), Entry (Obj 2) (Obj 2)])) None)
        (HostSeq [Obj (1::nat), Obj 2] :: (nat, nat, nat) PyValue) Py_EQ = Inr (PyBool False)"
  using equality_type_guarded [where other = "HostSeq [Obj (1::nat), Obj 2] :: (nat, nat, nat) PyValue"
      and f = "Obj 1" and r = "ConsObj (Obj 2) NoneObj"
      and v = "Vector_create 2 5 EMPTY_NODE [Obj 1, Obj 2] None" and H = hash_mod_100
      and m = "Map_create 2 (Some (BitmapIndexedNode 6 [Entry (Obj 1) (Obj 1), Entry (Obj 2) (Obj 2)])) None"]
  by simp

subsection \<open>SortedVector: removal beside a duplicate key\<close>

text \<open>
  After \<^verbatim>\<open>conj\<close> of 5 and again of 5 the first 5 is the red left child of the second:
  \<^verbatim>\<open>RBNode_insert\<close> sends the equal key to the right and \<^verbatim>\<open>RBNode_balance\<close> rotates left.
\<close>

lemma SortedVector_conj_duplicate_left:
  "pds_sorted_vec int_RichCompareBool (Some [5, 5]) None False =
     Inr (Fresh \<lparr>sv_root = RBNode 5 5 (RBNode 5 5 RB_NULL RB_NULL 1 RB_RED None) RB_NULL 2 RB_BLACK None,
                  sv_cnt = 2, sv_key_fn = None, sv_reverse = False\<rparr>) \<and>
   \<not> bst_order_duplicates_right int_RichCompareBool False
        (RBNode 5 5 (RBNode 5 5 RB_NULL RB_NULL 1 RB_RED None) RB_NULL 2 RB_BLACK None)"
proof -
  have "case pds_sorted_vec int_RichCompareBool (Some [5, 5]) None False of
          Inr (Fresh sv) \<Rightarrow>
            sv_root sv = RBNode 5 5 (RBNode 5 5 RB_NULL RB_NULL 1 RB_RED None) RB_NULL 2 RB_BLACK None \<and>
            sv_cnt sv = 2 \<and> Option.is_none (sv_key_fn sv) \<and> \<not> sv_reverse sv
        | _ \<Rightarrow> False"
    by code_simp
  then have "pds_sorted_vec int_RichCompareBool (Some [5, 5]) None False =
     Inr (Fresh \<lparr>sv_root = RBNode 5 5 (RBNode 5 5 RB_NULL RB_NULL 1 RB_RED None) RB_NULL 2 RB_BLACK None,
                  sv_cnt = 2, sv_key_fn = None, sv_reverse = False\<rparr>)"
    by (auto simp: Option.is_none_def split: sum.splits ref.splits)
  moreover have "\<not> bst_order_duplicates_right int_RichCompareBool False
        (RBNode 5 5 (RBNode 5 5 RB_NULL RB_NULL 1 RB_RED None) RB_NULL 2 RB_BLACK None)"
    by code_simp
  ultimately show ?thesis by simp
qed

text \<open>
  C8 at \<^verbatim>\<open>sorted_vec([4, 5, 4, 2]).disj(4)\<close>.  The vector built by the factory satisfies the
  invariants of the shape and holds the keys 2, 4, 4, 5.  In \<^verbatim>\<open>RBNode_delete\<close> at the root,
  \<^verbatim>\<open>RBNode_move_red_right\<close> rotates the other 4 to the top, with the old root as its right
  child: a node without left child whose right child is the red 5.  The key at the top is equal, so the successor branch
  runs \<^verbatim>\<open>RBNode_delete_min\<close> on that right child, which drops the node without left child
  together with its child 5.  The result has count 3 over the two nodes 2 and 4, and its
  paths do not have the same black depth.
\<close>

theorem SortedVector_disj_beside_duplicate:
  "pds_sorted_vec int_RichCompareBool (Some [4, 5, 4, 2]) None False = Inr (Fresh sv_4_5_4_2) \<and>
   SortedVector_shape_invariants sv_4_5_4_2 \<and>
   inorder_keys (sv_root sv_4_5_4_2) = [2, 4, 4, 5] \<and>
   SortedVector_disj int_RichCompareBool sv_4_5_4_2 4 = Inr (Fresh sv_4_5_4_2_disj_4) \<and>
   \<not> equal_black_depth (sv_root sv_4_5_4_2_disj_4) \<and>
   sv_cnt sv_4_5_4_2_disj_4 = 3 \<and>
   node_count (sv_root sv_4_5_4_2_disj_4) = 2 \<and>
   inorder_keys (sv_root sv_4_5_4_2_disj_4) = [2, 4] \<and>
   \<not> SortedVector_shape_invariants sv_4_5_4_2_disj_4"
proof -
  have "case pds_sorted_vec int_RichCompareBool (Some [4, 5, 4, 2]) None False of
          Inr (Fresh sv) \<Rightarrow>
            sv_root sv = sv_root sv_4_5_4_2 \<and> sv_cnt sv = 4 \<and> Option.is_none (sv_key_fn sv) \<and>
            \<not> sv_reverse sv
        | _ \<Rightarrow> False"
    by code_simp
  then have built: "pds_sorted_vec int_RichCompareBool (Some [4, 5, 4, 2]) None False =
      Inr (Fresh sv_4_5_4_2)"
    by (auto simp: Option.is_none_def sv_4_5_4_2_def split: sum.splits ref.splits)
  have "case SortedVector_disj int_RichCompareBool sv_4_5_4_2 4 of
          Inr (Fresh sv) \<Rightarrow>
            sv_root sv = sv_root sv_4_5_4_2_disj_4 \<and> sv_cnt sv = 3 \<and> Option.is_none (sv_key_fn sv) \<and>
            \<not> sv_reverse sv
        | _ \<Rightarrow> False"
    by code_simp
  then have removed: "SortedVector_disj int_RichCompareBool sv_4_5_4_2 4 = Inr (Fresh sv_4_5_4_2_disj_4)"
    by (auto simp: Option.is_none_def sv_4_5_4_2_disj_4_def split: sum.splits ref.splits)
  have before: "SortedVector_shape_invariants sv_4_5_4_2"
      "inorder_keys (sv_root sv_4_5_4_2) = [2, 4, 4, 5]"
    by code_simp+
  have after: "\<not> equal_black_depth (sv_root sv_4_5_4_2_disj_4)"
      "sv_cnt sv_4_5_4_2_disj_4 = 3" "node_count (sv_root sv_4_5_4_2_disj_4) = 2"
      "inorder_keys (sv_root sv_4_5_4_2_disj_4) = [2, 4]"
      "\<not> SortedVector_shape_invariants sv_4_5_4_2_disj_4"
    by code_simp+
  from built removed before after show ?thesis by simp
qed

subsection \<open>Canonical empty instances\<close>

lemma node_dissoc_single_entry:
  "key \<noteq> Py_None \<Longrightarrow>
   node_dissoc (BitmapIndexedNode (bitpos h 0) [Entry key val]) 0 h key = Inr Gone"
  by (simp add: node_dissoc.simps)

lemma SortedVector_single:
  assumes "cmp x x Py_LT = Inr False" "cmp x x Py_GT = Inr False" "cmp x x Py_EQ = Inr True"
  shows "SortedVector_conj cmp \<lparr>sv_root = RB_NULL, sv_cnt = 0, sv_key_fn = None, sv_reverse = reverse\<rparr> x =
           Inr \<lparr>sv_root = RBNode x x RB_NULL RB_NULL 1 RB_BLACK None, sv_cnt = 1, sv_key_fn = None,
                 sv_reverse = reverse\<rparr>"
    and "SortedVector_disj cmp
           \<lparr>sv_root = RBNode x x RB_NULL RB_NULL 1 RB_BLACK None, sv_cnt = 1, sv_key_fn = None,
              sv_reverse = reverse\<rparr> x =
           Inr (Fresh \<lparr>sv_root = RB_NULL, sv_cnt = 0, sv_key_fn = None, sv_reverse = reverse\<rparr>)"
proof -
  show "SortedVector_conj cmp \<lparr>sv_root = RB_NULL, sv_cnt = 0, sv_key_fn = None, sv_reverse = reverse\<rparr> x =
           Inr \<lparr>sv_root = RBNode x x RB_NULL RB_NULL 1 RB_BLACK None, sv_cnt = 1, sv_key_fn = None,
                 sv_reverse = reverse\<rparr>"
    by (simp add: SortedVector_conj_def SortedVector_get_sort_key_def RBNode_create_def)
  have c: "SortedVector_compare_keys cmp x x reverse = Inr 0"
    using assms by (simp add: SortedVector_compare_keys_def)
  have d: "RBNode_delete cmp (RBNode x x RB_NULL RB_NULL 1 RB_BLACK None) x x reverse None =
      Inr (RB_NULL, True)"
    by (subst RBNode_delete.simps) (simp add: c assms RBNode_ensure_editable_def)
  show "SortedVector_disj cmp
           \<lparr>sv_root = RBNode x x RB_NULL RB_NULL 1 RB_BLACK None, sv_cnt = 1, sv_key_fn = None,
              sv_reverse = reverse\<rparr> x =
           Inr (Fresh \<lparr>sv_root = RB_NULL, sv_cnt = 0, sv_key_fn = None, sv_reverse = reverse\<rparr>)"
    by (simp add: SortedVector_disj_def SortedVector_get_sort_key_def d)
qed

text \<open>
  C7, as amended.  The factories \<^verbatim>\<open>vec\<close>, \<^verbatim>\<open>hash_map\<close> and \<^verbatim>\<open>hash_set\<close> called without argument
  return the canonical empty instance of their type, and so does \<^verbatim>\<open>pop\<close> on a Vector of one
  element.  \<^verbatim>\<open>dissoc\<close> on the canonical empty HashMap, \<^verbatim>\<open>disj\<close> on the canonical empty HashSet
  and \<^verbatim>\<open>disj\<close> on the canonical empty SortedVector return their receiver, which is the
  canonical instance.  Removing the only key of a HashMap, the only element of a HashSet or
  the only element of a SortedVector returns a newly allocated empty object, with count 0
  and no root: not the canonical instance.  \<^verbatim>\<open>sorted_vec\<close> without items returns a newly
  allocated empty SortedVector, not the canonical instance.
\<close>

theorem canonical_empty:
  fixes H :: "'k PyObject \<Rightarrow> 64 word" and val :: "'v PyObject"
  shows
  "returns_canonical False (pds_vec ([] :: 'b list) built_vec) \<and>
   returns_canonical False (pds_hash_map ([] :: 'b list) built_map) \<and>
   returns_canonical False (pds_set (None :: 'b option) built_set) \<and>
   (cnt self = 1 \<longrightarrow> returns_canonical c (Vector_pop self)) \<and>
   Map_dissoc H (EMPTY_MAP :: ('k, 'v) Map) key = Inr Self \<and>
   returns_canonical True (Map_dissoc H (EMPTY_MAP :: ('k, 'v) Map) key) \<and>
   Set_disj H EMPTY_SET key = Inr Self \<and>
   returns_canonical True (Set_disj H EMPTY_SET key) \<and>
   SortedVector_disj cmp EMPTY_SORTED_VECTOR x = Inr Self \<and>
   returns_canonical True (SortedVector_disj cmp EMPTY_SORTED_VECTOR x) \<and>
   (key \<noteq> Py_None \<longrightarrow>
      Map_assoc H EMPTY_MAP key (val :: 'v PyObject) =
        Inr (Fresh (Map_create 1 (Some (BitmapIndexedNode (bitpos (H key) 0) [Entry key val])) None)) \<and>
      Map_dissoc H (Map_create 1 (Some (BitmapIndexedNode (bitpos (H key) 0) [Entry key val])) None) key =
        Inr (Fresh (Map_create 0 None None)) \<and>
      \<not> returns_canonical c
          (Map_dissoc H (Map_create 1 (Some (BitmapIndexedNode (bitpos (H key) 0) [Entry key val])) None) key) \<and>
      Set_conj H EMPTY_SET key =
        Inr (Fresh (Set_create 1 (Some (BitmapIndexedNode (bitpos (H key) 0) [Entry key Py_None])) None)) \<and>
      Set_disj H (Set_create 1 (Some (BitmapIndexedNode (bitpos (H key) 0) [Entry key Py_None])) None) key =
        Inr (Fresh (Set_create 0 None None)) \<and>
      \<not> returns_canonical c
          (Set_disj H (Set_create 1 (Some (BitmapIndexedNode (bitpos (H key) 0) [Entry key Py_None])) None) key)) \<and>
   (cmp x x Py_LT = Inr False \<and> cmp x x Py_GT = Inr False \<and> cmp x x Py_EQ = Inr True \<longrightarrow>
      SortedVector_conj cmp \<lparr>sv_root = RB_NULL, sv_cnt = 0, sv_key_fn = None, sv_reverse = reverse\<rparr> x =
        Inr \<lparr>sv_root = RBNode x x RB_NULL RB_NULL 1 RB_BLACK None, sv_cnt = 1, sv_key_fn = None,
              sv_reverse = reverse\<rparr> \<and>
      SortedVector_disj cmp
        \<lparr>sv_root = RBNode x x RB_NULL RB_NULL 1 RB_BLACK None, sv_cnt = 1, sv_key_fn = None,
           sv_reverse = reverse\<rparr> x =
        Inr (Fresh \<lparr>sv_root = RB_NULL, sv_cnt = 0, sv_key_fn = None, sv_reverse = reverse\<rparr>) \<and>
      \<not> returns_canonical c
          (SortedVector_disj cmp
             \<lparr>sv_root = RBNode x x RB_NULL RB_NULL 1 RB_BLACK None, sv_cnt = 1, sv_key_fn = None,
                sv_reverse = reverse\<rparr> x)) \<and>
   pds_sorted_vec cmp None key_fn reverse =
     Inr (Fresh \<lparr>sv_root = RB_NULL, sv_cnt = 0, sv_key_fn = key_fn, sv_reverse = reverse\<rparr>) \<and>
   \<not> returns_canonical False (pds_sorted_vec cmp None key_fn reverse)"
proof -
  have maps: "key \<noteq> Py_None \<Longrightarrow>
      Map_assoc H EMPTY_MAP key val =
        Inr (Fresh (Map_create 1 (Some (BitmapIndexedNode (bitpos (H key) 0) [Entry key val])) None)) \<and>
      Map_dissoc H (Map_create 1 (Some (BitmapIndexedNode (bitpos (H key) 0) [Entry key val])) None) key =
        Inr (Fresh (Map_create 0 None None)) \<and>
      Set_conj H EMPTY_SET key =
        Inr (Fresh (Set_create 1 (Some (BitmapIndexedNode (bitpos (H key) 0) [Entry key Py_None])) None)) \<and>
      Set_disj H (Set_create 1 (Some (BitmapIndexedNode (bitpos (H key) 0) [Entry key Py_None])) None) key =
        Inr (Fresh (Set_create 0 None None))"
    by (simp add: Map_assoc_def Map_dissoc_def Set_conj_def Set_disj_def EMPTY_MAP_def EMPTY_SET_def
        Map_create_def Set_create_def node_assoc_EMPTY_BIN node_dissoc_single_entry)
  have empties: "Map_dissoc H (EMPTY_MAP :: ('k, 'v) Map) key = Inr Self" "Set_disj H EMPTY_SET key = Inr Self"
      "SortedVector_disj cmp EMPTY_SORTED_VECTOR x = Inr Self"
    by (simp_all add: Map_dissoc_def Set_disj_def SortedVector_disj_def EMPTY_MAP_def EMPTY_SET_def
        EMPTY_SORTED_VECTOR_def Map_create_def Set_create_def)
  have factories: "pds_vec ([] :: 'b list) built_vec = Inr Singleton"
      "pds_hash_map ([] :: 'b list) built_map = Inr Singleton"
      "pds_set (None :: 'b option) built_set = Inr Singleton"
      "pds_sorted_vec cmp None key_fn reverse =
         Inr (Fresh \<lparr>sv_root = RB_NULL, sv_cnt = 0, sv_key_fn = key_fn, sv_reverse = reverse\<rparr>)"
    by (simp_all add: pds_vec_def pds_hash_map_def pds_set_def pds_sorted_vec_def)
  have pop: "cnt self = 1 \<Longrightarrow> Vector_pop self = Inr Singleton"
    by (simp add: Vector_pop_def)
  show ?thesis
    using maps empties factories pop SortedVector_single [of cmp x reverse]
    by (simp add: returns_canonical_def)
qed

text \<open>
  The theorem at the one-element vector \<open>[5]\<close>, the map \<open>{2: 7}\<close>, the set \<open>{2}\<close> and the sorted
  vector \<open>[4]\<close> of integers.
\<close>

theorem canonical_empty_witness:
  "cnt (Vector_create 1 BITS EMPTY_NODE [Obj (5 :: nat)] None) = 1 \<and>
   returns_canonical False (Vector_pop (Vector_create 1 BITS EMPTY_NODE [Obj (5 :: nat)] None)) \<and>
   Obj (2 :: nat) \<noteq> Py_None \<and>
   Map_dissoc hash_mod_100 (Map_create 1 (Some (BitmapIndexedNode 4 [Entry (Obj 2) (Obj (7 :: nat))])) None)
      (Obj 2) = Inr (Fresh (Map_create 0 None None)) \<and>
   Set_disj hash_mod_100 (Set_create 1 (Some (BitmapIndexedNode 4 [Entry (Obj 2) Py_None])) None)
      (Obj 2) = Inr (Fresh (Set_create 0 None None)) \<and>
   int_RichCompareBool 4 4 Py_LT = Inr False \<and> int_RichCompareBool 4 4 Py_GT = Inr False \<and>
   int_RichCompareBool 4 4 Py_EQ = Inr True \<and>
   SortedVector_disj int_RichCompareBool
     \<lparr>sv_root = RBNode 4 4 RB_NULL RB_NULL 1 RB_BLACK None, sv_cnt = 1, sv_key_fn = None,
        sv_reverse = False\<rparr> 4 =
     Inr (Fresh \<lparr>sv_root = RB_NULL, sv_cnt = 0, sv_key_fn = None, sv_reverse = False\<rparr>)"
proof -
  have b: "bitpos (hash_mod_100 (Obj 2)) 0 = 4"
    by code_simp
  have c: "cnt (Vector_create 1 BITS EMPTY_NODE [Obj (5 :: nat)] None) = 1"
    by (simp add: Vector_create_def)
  have k: "Obj (2 :: nat) \<noteq> Py_None"
    by simp
  have i: "int_RichCompareBool 4 4 Py_LT = Inr False \<and> int_RichCompareBool 4 4 Py_GT = Inr False \<and>
      int_RichCompareBool 4 4 Py_EQ = Inr True"
    by (simp add: int_RichCompareBool_def)
  note t = canonical_empty [where ?'b = nat and self = "Vector_create 1 BITS EMPTY_NODE [Obj (5 :: nat)] None"
        and c = False and H = hash_mod_100 and key = "Obj (2 :: nat)" and val = "Obj (7 :: nat)"
        and cmp = int_RichCompareBool and x = 4 and key_fn = None and reverse = False
        and built_vec = "Inl ValueError :: error + nat Vector"
        and built_map = "Inl ValueError :: error + (nat, nat) Map"
        and built_set = "Inl ValueError :: error + nat Set", unfolded b]
  from t c have 1: "returns_canonical False (Vector_pop (Vector_create 1 BITS EMPTY_NODE [Obj (5 :: nat)] None))"
    by blast
  from t k have 2: "Map_dissoc hash_mod_100 (Map_create 1 (Some (BitmapIndexedNode 4 [Entry (Obj 2) (Obj (7 :: nat))])) None)
      (Obj 2) = Inr (Fresh (Map_create 0 None None))"
    by blast
  from t k have 3: "Set_disj hash_mod_100 (Set_create 1 (Some (BitmapIndexedNode 4 [Entry (Obj 2) Py_None])) None)
      (Obj 2) = Inr (Fresh (Set_create 0 None None))"
    by blast
  from t i have 4: "SortedVector_disj int_RichCompareBool
     \<lparr>sv_root = RBNode 4 4 RB_NULL RB_NULL 1 RB_BLACK None, sv_cnt = 1, sv_key_fn = None,
        sv_reverse = False\<rparr> 4 =
     Inr (Fresh \<lparr>sv_root = RB_NULL, sv_cnt = 0, sv_key_fn = None, sv_reverse = False\<rparr>)"
    by blast
  from c 1 k 2 3 i 4 show ?thesis by blast
qed

text \<open>
  The claim as stated fails: \<^verbatim>\<open>dissoc\<close> of the only key of the map \<open>{2: 7}\<close>, itself allocated
  by \<^verbatim>\<open>assoc\<close> on the empty map, returns a newly allocated empty map, not \<^verbatim>\<open>EMPTY_MAP\<close>; and so
  does \<^verbatim>\<open>disj\<close> of the only element of the set \<open>{2}\<close>.
\<close>

theorem canonical_empty_counterexample:
  "Map_assoc hash_mod_100 EMPTY_MAP (Obj 2) (Obj (7 :: nat)) =
     Inr (Fresh (Map_create 1 (Some (BitmapIndexedNode 4 [Entry (Obj 2) (Obj 7)])) None)) \<and>
   Map_dissoc hash_mod_100 (Map_create 1 (Some (BitmapIndexedNode 4 [Entry (Obj 2) (Obj (7 :: nat))])) None) (Obj 2) =
     Inr (Fresh (Map_create 0 None None)) \<and>
   \<not> returns_canonical False
       (Map_dissoc hash_mod_100 (Map_create 1 (Some (BitmapIndexedNode 4 [Entry (Obj 2) (Obj (7 :: nat))])) None)
          (Obj 2)) \<and>
   Set_conj hash_mod_100 EMPTY_SET (Obj 2) =
     Inr (Fresh (Set_create 1 (Some (BitmapIndexedNode 4 [Entry (Obj 2) Py_None])) None)) \<and>
   \<not> returns_canonical False
       (Set_disj hash_mod_100 (Set_create 1 (Some (BitmapIndexedNode 4 [Entry (Obj 2) Py_None])) None) (Obj 2))"
  by code_simp

subsection \<open>Unboxing at the primitive vectors\<close>

lemma DoubleVector_conj_stores:
  assumes "convert val = Inr d" "DoubleVector_conj convert self val = Inr v"
  shows "dv_tail v \<noteq> [] \<and> last (dv_tail v) = d \<and> dv_cnt v = dv_cnt self + 1"
  using assms
  by (auto simp: DoubleVector_conj_def DoubleVector_create_def Let_def
      split: if_splits sum.splits)

lemma DoubleVector_conj_error:
  "convert val = Inl err \<Longrightarrow> DoubleVector_conj convert self val = Inl err"
  by (simp add: DoubleVector_conj_def)

lemma DoubleVector_conj_in_tail:
  assumes "convert val = Inr d" "dv_cnt self - DoubleVector_tail_off self < int WIDTH"
  shows "DoubleVector_conj convert self val =
           Inr (DoubleVector_create (dv_cnt self + 1) (dv_shift self) (dv_root self)
                  (dv_tail self @ [d]) (dv_transient_id self))"
  using assms by (simp add: DoubleVector_conj_def)

lemma unbox_all_TypeError:
  assumes "\<exists>item \<in> set args. \<exists>err. convert item = Inl err"
    and "\<And>t v. \<exists>t'. conj_mut_raw t v = Inr t'"
  shows "unbox_all convert conj_mut_raw t args = Inl TypeError"
  using assms(1)
proof (induction args arbitrary: t)
  case Nil
  then show ?case by simp
next
  case (Cons item items)
  show ?case
  proof (cases "convert item")
    case (Inl err)
    then show ?thesis by simp
  next
    case (Inr v)
    obtain t' where t': "conj_mut_raw t v = Inr t'"
      using assms(2) by blast
    have "\<exists>item \<in> set items. \<exists>err. convert item = Inl err"
      using Cons.prems Inr by auto
    then show ?thesis
      using Cons.IH [of t'] Inr t' by simp
  qed
qed

lemma bit_length_le: "bit_length a \<le> k \<longleftrightarrow> a < 2 ^ k"
proof (induction a arbitrary: k rule: bit_length.induct)
  case (1 n)
  show ?case
  proof (cases "n = 0")
    case True
    then show ?thesis by (simp add: bit_length.simps)
  next
    case False
    show ?thesis
    proof (cases k)
      case 0
      then show ?thesis using False by (simp add: bit_length.simps [of n])
    next
      case (Suc j)
      have "bit_length n \<le> Suc j \<longleftrightarrow> bit_length (n div 2) \<le> j"
        using False by (simp add: bit_length.simps [of n])
      also have "\<dots> \<longleftrightarrow> n div 2 < 2 ^ j"
        using 1 [OF False, of j] .
      also have "\<dots> \<longleftrightarrow> n < 2 ^ Suc j"
        by auto
      finally show ?thesis using Suc by simp
    qed
  qed
qed

lemma bit_length_eq: "2 ^ k \<le> a \<Longrightarrow> a < 2 ^ Suc k \<Longrightarrow> bit_length a = Suc k"
  using bit_length_le [of a "Suc k"] bit_length_le [of a k] by auto

lemma nearest_double_example: "nearest_double (2 ^ 53 + 1) = 2 ^ 53"
proof -
  have "bit_length (nat \<bar>2 ^ 53 + 1 :: int\<bar>) = Suc 53"
    by (rule bit_length_eq) simp_all
  then show ?thesis
    by (simp add: nearest_double_def Let_def)
qed

lemma nearest_double_exact: "\<bar>n\<bar> < 2 ^ 53 \<Longrightarrow> nearest_double n = n"
proof -
  assume a: "\<bar>n\<bar> < 2 ^ 53"
  have "nat \<bar>n\<bar> < 2 ^ 53"
    using a by (simp add: nat_less_iff)
  then have "bit_length (nat \<bar>n\<bar>) \<le> 53"
    by (simp add: bit_length_le)
  then show ?thesis
    by (simp add: nearest_double_def Let_def)
qed

text \<open>
  C9, as amended.  \<^verbatim>\<open>conj\<close> on a primitive vector converts its argument with the conversion
  of the host (\<^verbatim>\<open>PyFloat_AsDouble\<close> for f64, \<^verbatim>\<open>PyLong_AsLongLong\<close> for i64).  When the conversion
  raises, \<^verbatim>\<open>conj\<close> fails with the error of the host, unchanged: on an i64 vector that is
  \<^verbatim>\<open>OverflowError\<close> for an integer outside 64 bits and \<^verbatim>\<open>TypeError\<close> for a string.  When the
  conversion returns, the value it returns becomes the last element and the count grows by
  one; there is no test for a loss of information: an integer below \<open>2^53\<close> in absolute
  value is stored in an f64 vector as it is, a larger one as the nearest \<^verbatim>\<open>double\<close>.  The
  factories \<^verbatim>\<open>vec_f64\<close> and \<^verbatim>\<open>vec_i64\<close> fail with \<^verbatim>\<open>TypeError\<close> when the conversion of an
  argument raises, whatever the error of the host.
\<close>

theorem primitive_unboxing:
  "(PyFloat_AsDouble val = Inl err \<longrightarrow> DoubleVector_conj PyFloat_AsDouble self val = Inl err) \<and>
   (PyLong_AsLongLong val = Inl err \<longrightarrow> IntVector_conj PyLong_AsLongLong self val = Inl err) \<and>
   (PyFloat_AsDouble val = Inr d \<and> DoubleVector_conj PyFloat_AsDouble self val = Inr v \<longrightarrow>
      dv_tail v \<noteq> [] \<and> last (dv_tail v) = d \<and> dv_cnt v = dv_cnt self + 1) \<and>
   (PyLong_AsLongLong val = Inr d \<and> IntVector_conj PyLong_AsLongLong self val = Inr v \<longrightarrow>
      dv_tail v \<noteq> [] \<and> last (dv_tail v) = d \<and> dv_cnt v = dv_cnt self + 1) \<and>
   (PyFloat_AsDouble val = Inr d \<and> dv_cnt self - DoubleVector_tail_off self < int WIDTH \<longrightarrow>
      DoubleVector_conj PyFloat_AsDouble self val =
        Inr (DoubleVector_create (dv_cnt self + 1) (dv_shift self) (dv_root self)
               (dv_tail self @ [d]) (dv_transient_id self))) \<and>
   (\<bar>n\<bar> < 2 ^ 53 \<longrightarrow> host_PyFloat_AsDouble (PyInt n) = Inr n) \<and>
   (n < - (2 ^ 63) \<or> 2 ^ 63 \<le> n \<longrightarrow>
      IntVector_conj host_PyLong_AsLongLong isv (PyInt n) = Inl OverflowError) \<and>
   IntVector_conj host_PyLong_AsLongLong isv (PyStr s) = Inl TypeError \<and>
   DoubleVector_conj host_PyFloat_AsDouble isv (PyStr s) = Inl TypeError \<and>
   ((\<exists>item \<in> set args. \<exists>e. convert item = Inl e) \<and> (\<forall>t x. \<exists>t'. conj_mut_raw t x = Inr t') \<longrightarrow>
      pds_vec_f64 convert conj_mut_raw persistent t0 args = Inl TypeError \<and>
      pds_vec_i64 convert conj_mut_raw persistent t0 args = Inl TypeError)"
proof -
  have host: "\<bar>n\<bar> < 2 ^ 53 \<Longrightarrow> host_PyFloat_AsDouble (PyInt n) = Inr n"
  proof -
    assume a: "\<bar>n\<bar> < 2 ^ 53"
    have "(2 :: int) ^ 53 < 2 ^ 1024" by simp
    with a have "\<bar>n\<bar> < 2 ^ 1024" by linarith
    with a show ?thesis
      by (simp add: host_PyFloat_AsDouble_def nearest_double_exact)
  qed
  have over: "n < - (2 ^ 63) \<or> 2 ^ 63 \<le> n \<Longrightarrow>
      IntVector_conj host_PyLong_AsLongLong isv (PyInt n) = Inl OverflowError"
    by (auto simp: IntVector_conj_def DoubleVector_conj_def host_PyLong_AsLongLong_def)
  have strs: "IntVector_conj host_PyLong_AsLongLong isv (PyStr s) = Inl TypeError"
      "DoubleVector_conj host_PyFloat_AsDouble isv (PyStr s) = Inl TypeError"
    by (simp_all add: IntVector_conj_def DoubleVector_conj_def host_PyLong_AsLongLong_def
        host_PyFloat_AsDouble_def)
  have fact: "(\<exists>item \<in> set args. \<exists>e. convert item = Inl e) \<and> (\<forall>t x. \<exists>t'. conj_mut_raw t x = Inr t') \<Longrightarrow>
      pds_vec_f64 convert conj_mut_raw persistent t0 args = Inl TypeError \<and>
      pds_vec_i64 convert conj_mut_raw persistent t0 args = Inl TypeError"
  proof -
    assume a: "(\<exists>item \<in> set args. \<exists>e. convert item = Inl e) \<and> (\<forall>t x. \<exists>t'. conj_mut_raw t x = Inr t')"
    then have "args \<noteq> []" by auto
    moreover have "unbox_all convert conj_mut_raw t0 args = Inl TypeError"
      using a by (intro unbox_all_TypeError) auto
    ultimately show ?thesis
      by (simp add: pds_vec_f64_def pds_vec_i64_def)
  qed
  show ?thesis
    using DoubleVector_conj_error [of PyFloat_AsDouble val err self]
      DoubleVector_conj_error [of PyLong_AsLongLong val err self]
      DoubleVector_conj_stores [of PyFloat_AsDouble val d self v]
      DoubleVector_conj_stores [of PyLong_AsLongLong val d self v]
      DoubleVector_conj_in_tail [of PyFloat_AsDouble val d self] host over strs fact
    unfolding IntVector_conj_def
    by blast
qed

text \<open>
  The theorem at the empty vectors with the arguments \<open>''a''\<close>, 7 and \<open>2^63\<close>, and at the
  factory call \<^verbatim>\<open>vec_f64(1, ''a'')\<close>.
\<close>

theorem primitive_unboxing_witness:
  "host_PyFloat_AsDouble (PyStr ''a'') = Inl TypeError \<and>
   DoubleVector_conj host_PyFloat_AsDouble EMPTY_DOUBLE_VECTOR (PyStr ''a'') = Inl TypeError \<and>
   host_PyFloat_AsDouble (PyInt 7) = Inr 7 \<and>
   dv_cnt (EMPTY_DOUBLE_VECTOR :: int DoubleVector) - DoubleVector_tail_off (EMPTY_DOUBLE_VECTOR :: int DoubleVector)
     < int WIDTH \<and>
   DoubleVector_conj host_PyFloat_AsDouble EMPTY_DOUBLE_VECTOR (PyInt 7) =
     Inr (DoubleVector_create 1 BITS EMPTY_DOUBLE_NODE [7] None) \<and>
   last (dv_tail (DoubleVector_create 1 BITS EMPTY_DOUBLE_NODE [7 :: int] None)) = 7 \<and>
   IntVector_conj host_PyLong_AsLongLong EMPTY_DOUBLE_VECTOR (PyInt (2 ^ 63)) = Inl OverflowError \<and>
   pds_vec_f64 host_PyFloat_AsDouble list_conj_mut_raw
     (\<lambda>t. DoubleVector_create (int (length t)) BITS EMPTY_DOUBLE_NODE t None) [] [PyInt 1, PyStr ''a''] =
     Inl TypeError"
proof -
  let ?e = "EMPTY_DOUBLE_VECTOR :: int DoubleVector"
  let ?v = "DoubleVector_create 1 BITS EMPTY_DOUBLE_NODE [7 :: int] None"
  let ?p = "\<lambda>t :: int list. DoubleVector_create (int (length t)) BITS EMPTY_DOUBLE_NODE t None"
  have h1: "host_PyFloat_AsDouble (PyStr ''a'') = Inl TypeError"
    by (simp add: host_PyFloat_AsDouble_def)
  have h2: "\<bar>7 :: int\<bar> < 2 ^ 53"
    by simp
  have h3: "dv_cnt ?e - DoubleVector_tail_off ?e < int WIDTH"
    by (simp add: EMPTY_DOUBLE_VECTOR_def DoubleVector_create_def DoubleVector_tail_off_def WIDTH_def)
  have h4: "(2 :: int) ^ 63 < - (2 ^ 63) \<or> (2 :: int) ^ 63 \<le> 2 ^ 63"
    by simp
  have h5: "(\<exists>item \<in> set [PyInt 1, PyStr ''a'']. \<exists>e. host_PyFloat_AsDouble item = Inl e) \<and>
      (\<forall>(t :: int list) x. \<exists>t'. list_conj_mut_raw t x = Inr t')"
    by (simp add: host_PyFloat_AsDouble_def list_conj_mut_raw_def)
  note a = primitive_unboxing [where PyFloat_AsDouble = host_PyFloat_AsDouble
        and PyLong_AsLongLong = host_PyLong_AsLongLong and val = "PyStr ''a''" and err = TypeError
        and self = ?e and d = 7 and v = ?v and n = "2 ^ 63" and isv = ?e and s = "''a''"
        and args = "[PyInt 1, PyStr ''a'']" and convert = host_PyFloat_AsDouble
        and conj_mut_raw = list_conj_mut_raw and persistent = ?p and ?t0.0 = "[]"]
  note b = primitive_unboxing [where PyFloat_AsDouble = host_PyFloat_AsDouble
        and PyLong_AsLongLong = host_PyLong_AsLongLong and val = "PyInt 7" and err = TypeError
        and self = ?e and d = 7 and v = ?v and n = 7 and isv = ?e and s = "''a''"
        and args = "[PyInt 1, PyStr ''a'']" and convert = host_PyFloat_AsDouble
        and conj_mut_raw = list_conj_mut_raw and persistent = ?p and ?t0.0 = "[]"]
  from a h1 have 1: "DoubleVector_conj host_PyFloat_AsDouble ?e (PyStr ''a'') = Inl TypeError"
    by blast
  from b h2 have 2: "host_PyFloat_AsDouble (PyInt 7) = Inr 7"
    by blast
  from b 2 h3 have 3: "DoubleVector_conj host_PyFloat_AsDouble ?e (PyInt 7) =
      Inr (DoubleVector_create (dv_cnt ?e + 1) (dv_shift ?e) (dv_root ?e) (dv_tail ?e @ [7])
             (dv_transient_id ?e))"
    by blast
  then have 4: "DoubleVector_conj host_PyFloat_AsDouble ?e (PyInt 7) = Inr ?v"
    by (simp add: EMPTY_DOUBLE_VECTOR_def DoubleVector_create_def)
  from b 2 4 have 5: "last (dv_tail ?v) = 7"
    by blast
  from a h4 have 6: "IntVector_conj host_PyLong_AsLongLong ?e (PyInt (2 ^ 63)) = Inl OverflowError"
    by blast
  from a h5 have 7: "pds_vec_f64 host_PyFloat_AsDouble list_conj_mut_raw ?p [] [PyInt 1, PyStr ''a''] =
      Inl TypeError"
    by blast
  from h1 1 2 h3 4 5 6 7 show ?thesis
    by blast
qed

text \<open>
  The claim as stated fails: \<^verbatim>\<open>conj\<close> of the integer \<open>2^53 + 1\<close> on the empty f64 vector does not
  fail, although the conversion loses the last bit: the vector holds \<open>2^53\<close>.  And \<^verbatim>\<open>conj\<close> of
  \<open>2^63\<close> on the empty i64 vector fails with \<^verbatim>\<open>OverflowError\<close>, where the factory \<^verbatim>\<open>vec_i64\<close>
  fails with \<^verbatim>\<open>TypeError\<close>.
\<close>

theorem primitive_unboxing_counterexample:
  "DoubleVector_conj host_PyFloat_AsDouble EMPTY_DOUBLE_VECTOR (PyInt (2 ^ 53 + 1)) =
     Inr (DoubleVector_create 1 BITS EMPTY_DOUBLE_NODE [2 ^ 53] None) \<and>
   (2 :: int) ^ 53 \<noteq> 2 ^ 53 + 1 \<and>
   IntVector_conj host_PyLong_AsLongLong EMPTY_DOUBLE_VECTOR (PyInt (2 ^ 63)) = Inl OverflowError \<and>
   pds_vec_i64 host_PyLong_AsLongLong list_conj_mut_raw
     (\<lambda>t. DoubleVector_create (int (length t)) BITS EMPTY_DOUBLE_NODE t None) [] [PyInt (2 ^ 63)] =
     Inl TypeError"
proof -
  have c1: "host_PyFloat_AsDouble (PyInt (2 ^ 53 + 1)) = Inr (2 ^ 53)"
    by (simp only: host_PyFloat_AsDouble_def py_arg.case nearest_double_example) simp
  have c2: "DoubleVector_conj host_PyFloat_AsDouble EMPTY_DOUBLE_VECTOR (PyInt (2 ^ 53 + 1)) =
      Inr (DoubleVector_create 1 BITS EMPTY_DOUBLE_NODE [2 ^ 53] None)"
    using DoubleVector_conj_in_tail [where convert = host_PyFloat_AsDouble and val = "PyInt (2 ^ 53 + 1)"
        and d = "2 ^ 53" and self = "EMPTY_DOUBLE_VECTOR :: int DoubleVector", OF c1]
    by (simp add: EMPTY_DOUBLE_VECTOR_def DoubleVector_create_def DoubleVector_tail_off_def WIDTH_def)
  have c3: "IntVector_conj host_PyLong_AsLongLong EMPTY_DOUBLE_VECTOR (PyInt (2 ^ 63)) = Inl OverflowError"
    by (simp add: IntVector_conj_def DoubleVector_conj_def host_PyLong_AsLongLong_def)
  have c4: "pds_vec_i64 host_PyLong_AsLongLong list_conj_mut_raw
      (\<lambda>t. DoubleVector_create (int (length t)) BITS EMPTY_DOUBLE_NODE t None) [] [PyInt (2 ^ 63)] =
      Inl TypeError"
    by (simp add: pds_vec_i64_def pds_vec_f64_def host_PyLong_AsLongLong_def)
  have c5: "(2 :: int) ^ 53 \<noteq> 2 ^ 53 + 1"
    by simp
  from c2 c5 c3 c4 show ?thesis
    by (intro conjI)
qed

end
